theory Spec2Isabelle
  imports Main "HOL-Library.Sublist"
begin

section \<open>The command functions of darwin (src/darwin/cli\_functions.py)\<close>

text \<open>
  The module \<^verbatim>\<open>cli_functions.py\<close> is glue: each function loads a client, calls
  methods of objects that other modules of the package define (\<^verbatim>\<open>darwin.client\<close>,
  \<^verbatim>\<open>darwin.config\<close>, \<^verbatim>\<open>darwin.dataset.identifier\<close>, \<^verbatim>\<open>darwin.table\<close>,
  \<^verbatim>\<open>darwin.utils\<close>), prints, and turns some exceptions into \<^verbatim>\<open>_error\<close>.

  The embedding keeps that shape. A command is a function on a \<open>world\<close> (what has been
  printed, and which operations of the collaborators have been invoked, in order) that
  returns either a value or the exception that left the function. \<^verbatim>\<open>sys.exit(1)\<close>
  raises \<^verbatim>\<open>SystemExit(1)\<close>, which none of the handlers of the module catches, so
  it is one more exception. What the collaborators do is not in this file of the
  repository: their answers are fields of the records \<open>env\<close>, \<open>Client\<close> and
  \<open>RemoteDataset\<close>, over which the theorems about the module quantify. The function
  \<^verbatim>\<open>help\<close> (a walk over \<^verbatim>\<open>argparse\<close> internals, with no failure branch) is left out.
\<close>

subsection \<open>Paths, identifiers, exceptions\<close>

text \<open>A \<^verbatim>\<open>pathlib.Path\<close> as the list of its components; \<^verbatim>\<open>p.name\<close> is the last one
  (the empty string for a path with no component), \<^verbatim>\<open>p / s\<close> appends one.\<close>

type_synonym Path = "string list"

definition path_name :: "Path \<Rightarrow> string" where
  "path_name p = (case rev p of [] \<Rightarrow> [] | s # _ \<Rightarrow> s)"

definition path_div :: "Path \<Rightarrow> string \<Rightarrow> Path" where
  "path_div p s = p @ [s]"

definition path_parent :: "Path \<Rightarrow> Path" where
  "path_parent p = butlast p"

record DatasetIdentifier =
  team_slug :: "string option"
  dataset_slug :: string
  version :: "string option"

text \<open>
  What a \<^verbatim>\<open>NotFound\<close> carries in its attribute \<^verbatim>\<open>name\<close>: a plain name, or (for a
  release that does not exist) the dataset's identifier and the version asked for.
\<close>

datatype missing =
    Named string
  | ReleaseOf DatasetIdentifier string

datatype exn =
    InvalidLogin
  | MissingConfig
  | NameTaken
  | NotFound missing
  | Unauthenticated
  | ValidationError
  | ValueError
  | MalformedReference
  | ReleaseUnavailable
  | SystemExit nat

text \<open>The kinds of the spec's error taxonomy that the module knows under another name.\<close>

definition EmptyFileSet :: exn where
  "EmptyFileSet = ValueError"

definition ReleaseNotFound :: "DatasetIdentifier \<Rightarrow> string \<Rightarrow> exn" where
  "ReleaseNotFound i v = NotFound (ReleaseOf i v)"

subsection \<open>Values the collaborators exchange\<close>

record Release =
  release_identifier :: DatasetIdentifier
  release_image_count :: int
  release_class_count :: int
  export_date :: int
  available :: bool

text \<open>An upload task of the transfer engine: a static item, or one frame of a video.\<close>

datatype task = StaticItem string | VideoFrame string nat

datatype ds_ref = ByString string | ByIdentifier DatasetIdentifier

record LocalDataset =
  local_root_path :: Path
  local_team_slug :: string
  local_dataset_slug :: string

record TransferRequest =
  files_to_upload :: "string list option"
  files_to_exclude :: "string list option"
  frame_rate :: int

record summary =
  succeeded :: nat
  failed :: "(string \<times> exn) list"

subsection \<open>Tables and output\<close>

datatype align = AlignL | AlignR

datatype cell = Str string | Num int | Ident DatasetIdentifier

record Table =
  table_columns :: "string list"
  table_alignments :: "align list"
  table_rows :: "(string \<times> cell) list list"

definition new_Table :: "string list \<Rightarrow> align list \<Rightarrow> Table" where
  "new_Table cols als = \<lparr>table_columns = cols, table_alignments = als, table_rows = []\<rparr>"

definition add_row :: "Table \<Rightarrow> (string \<times> cell) list \<Rightarrow> Table" where
  "add_row t row = t\<lparr>table_rows := table_rows t @ [row]\<rparr>"

datatype printed = Line string | Tab Table

subsection \<open>Worlds and commands\<close>

text \<open>
  The trace holds, in order, the operations of the transport client that were invoked
  (the list of the spec's section 6) and the local side effects (directories made,
  configuration written, questions put to the user).
\<close>

datatype event =
    FromApiKey string
  | CreateDataset string
  | GetRemoteDataset ds_ref
  | ListRemoteDatasets string
  | GetReport DatasetIdentifier string
  | CreateRelease DatasetIdentifier "int list option" "string option"
  | ListReleases DatasetIdentifier
  | DownloadRelease Release
  | UploadFile task
  | RemoveRemote DatasetIdentifier
  | Mkdir Path
  | SetDatasetsDir Path
  | PersistConfig "string option"
  | SetDefaultTeam string
  | Asked string
  | AskedToContinue

fun mutates_remote :: "event \<Rightarrow> bool" where
  "mutates_remote (CreateDataset _) = True"
| "mutates_remote (CreateRelease _ _ _) = True"
| "mutates_remote (UploadFile _) = True"
| "mutates_remote (RemoveRemote _) = True"
| "mutates_remote _ = False"

record world =
  stdout :: "printed list"
  trace :: "event list"

type_synonym 'a cli = "world \<Rightarrow> (exn + 'a) \<times> world"

definition ret :: "'a \<Rightarrow> 'a cli" where
  "ret x w = (Inr x, w)"

definition raise :: "exn \<Rightarrow> 'a cli" where
  "raise e w = (Inl e, w)"

definition lift :: "exn + 'a \<Rightarrow> 'a cli" where
  "lift r w = (r, w)"

definition bind :: "'a cli \<Rightarrow> ('a \<Rightarrow> 'b cli) \<Rightarrow> 'b cli" where
  "bind m k w = (case m w of (Inl e, w') \<Rightarrow> (Inl e, w') | (Inr x, w') \<Rightarrow> k x w')"

text \<open>\<^verbatim>\<open>try: body except ...\<close>: the handler says which exceptions it catches.\<close>

definition try_except :: "'a cli \<Rightarrow> (exn \<Rightarrow> 'a cli option) \<Rightarrow> 'a cli" where
  "try_except body handler w =
     (case body w of
        (Inr x, w') \<Rightarrow> (Inr x, w')
      | (Inl e, w') \<Rightarrow> (case handler e of None \<Rightarrow> (Inl e, w') | Some h \<Rightarrow> h w'))"

definition print :: "printed \<Rightarrow> unit cli" where
  "print out w = (Inr (), w\<lparr>stdout := stdout w @ [out]\<rparr>)"

definition emit :: "event \<Rightarrow> unit cli" where
  "emit ev w = (Inr (), w\<lparr>trace := trace w @ [ev]\<rparr>)"

text \<open>Invoking an operation of a collaborator: it is recorded, then it answers.\<close>

definition invoke :: "event \<Rightarrow> exn + 'a \<Rightarrow> 'a cli" where
  "invoke ev r = bind (emit ev) (\<lambda>_. lift r)"

subsection \<open>The collaborators\<close>

text \<open>
  A remote dataset as \<^verbatim>\<open>client.get_remote_dataset\<close> returns it: the attributes the
  module reads, and what each method the module calls on it does. The methods
  \<^verbatim>\<open>get_release\<close>, \<^verbatim>\<open>pull\<close> and \<^verbatim>\<open>push\<close> are commands of their own (they talk to
  the server and to the filesystem); the others answer at once.
  \<open>ds_progress_percent\<close> is the text of \<^verbatim>\<open>round(dataset.progress*100,1)\<close>. The last
  three fields are what the transfer engine reads from the filesystem: the scan of the
  source root, which files are videos, and how many frames a video has at a frame rate.
\<close>

record RemoteDataset =
  ds_name :: string
  ds_team :: string
  ds_slug :: string
  ds_remote_path :: string
  ds_local_path :: Path
  ds_identifier :: DatasetIdentifier
  ds_image_count :: int
  ds_progress_percent :: string
  ds_get_report :: "string \<Rightarrow> exn + string"
  ds_export :: "int list option \<Rightarrow> string option \<Rightarrow> exn + unit"
  ds_get_releases :: "exn + Release list"
  ds_remove_remote :: "exn + unit"
  ds_get_release :: "string \<Rightarrow> Release cli"
  ds_pull :: "Release \<Rightarrow> LocalDataset cli"
  ds_push :: "TransferRequest \<Rightarrow> summary cli"
  ds_download :: "Release \<Rightarrow> exn + unit"
  ds_upload :: "task \<Rightarrow> exn + unit"
  ds_scan_source_root :: "string list"
  ds_is_video :: "string \<Rightarrow> bool"
  ds_frame_count :: "string \<Rightarrow> int \<Rightarrow> nat"

text \<open>
  A client. \<open>client_list_local_datasets\<close> is a generator: the paths it yields and, if
  it stops by raising, the exception.
\<close>

record Client =
  client_team :: string
  client_default_team :: string
  client_url :: string
  client_list_local_datasets :: "string option \<Rightarrow> Path list \<times> exn option"
  client_get_remote_dataset :: "ds_ref \<Rightarrow> exn + RemoteDataset"
  client_create_dataset :: "string \<Rightarrow> exn + RemoteDataset"
  client_list_remote_datasets :: "exn + RemoteDataset list"

record team_entry =
  entry_slug :: string
  entry_default :: bool

datatype Config = Config Path

text \<open>
  Everything else the module reaches for: \<^verbatim>\<open>DatasetIdentifier.parse\<close> and the text of
  an identifier in an f-string, the home directory, the class methods of \<^verbatim>\<open>Client\<close>,
  the configuration file, the user at the terminal, the filesystem and \<^verbatim>\<open>humanize\<close>.
\<close>

record env =
  identifier_parse :: "string \<Rightarrow> exn + DatasetIdentifier"
  identifier_str :: "DatasetIdentifier \<Rightarrow> string"
  home :: Path
  client_from_config :: "Path \<Rightarrow> string option \<Rightarrow> exn + Client"
  client_from_api_key :: "string \<Rightarrow> exn + Client"
  config_get_all_teams :: "Path \<Rightarrow> team_entry list"
  config_set_default_team :: "Path \<Rightarrow> string \<Rightarrow> exn + unit"
  persist_client_configuration :: "Client \<Rightarrow> Path \<Rightarrow> string option \<Rightarrow> exn + Config"
  input :: "string \<Rightarrow> string"
  prompt :: "string \<Rightarrow> string \<Rightarrow> string"
  expanduser :: "string \<Rightarrow> Path"
  secure_continue_request :: bool
  find_files :: "Path list \<Rightarrow> Path list"
  st_size :: "Path \<Rightarrow> int"
  naturaldate_mtime :: "Path \<Rightarrow> string"
  naturalsize :: "int \<Rightarrow> string"

text \<open>The text of \<^verbatim>\<open>e.name\<close> in an f-string.\<close>

definition str_missing :: "env \<Rightarrow> missing \<Rightarrow> string" where
  "str_missing E m =
     (case m of Named s \<Rightarrow> s | ReleaseOf i v \<Rightarrow> identifier_str E (i\<lparr>version := Some v\<rparr>))"

definition quoted :: "string \<Rightarrow> string" where
  "quoted s = [CHR 0x27] @ s @ [CHR 0x27]"

fun path_str :: "Path \<Rightarrow> string" where
  "path_str [] = []"
| "path_str [s] = s"
| "path_str (s # t # ps) = s @ ''/'' @ path_str (t # ps)"

subsection \<open>The functions of the module\<close>

definition u_error :: "string \<Rightarrow> 'a cli" where
  "u_error message = bind (print (Line (''Error: '' @ message))) (\<lambda>_. raise (SystemExit 1))"

definition config_yaml :: "env \<Rightarrow> Path" where
  "config_yaml E = path_div (path_div (home E) ''.darwin'') ''config.yaml''"

definition u_config :: "env \<Rightarrow> Config" where
  "u_config E = Config (config_yaml E)"

definition u_load_client :: "env \<Rightarrow> string option \<Rightarrow> bool \<Rightarrow> Client cli" where
  "u_load_client E team offline =
     try_except
       (lift (client_from_config E (config_yaml E) team))
       (\<lambda>e. case e of
               MissingConfig \<Rightarrow> Some (u_error ''Authenticate first'')
             | InvalidLogin \<Rightarrow> Some (u_error ''Please re-authenticate'')
             | Unauthenticated \<Rightarrow> Some (u_error ''Please re-authenticate'')
             | _ \<Rightarrow> None)"

definition authenticate :: "env \<Rightarrow> string \<Rightarrow> bool option \<Rightarrow> string option \<Rightarrow> Config cli" where
  "authenticate E api_key default_team datasets_dir =
     try_except
       (bind (invoke (FromApiKey api_key) (client_from_api_key E api_key)) (\<lambda>client.
        bind (emit (Mkdir (path_parent (config_yaml E)))) (\<lambda>_.
        bind (case default_team of
                Some b \<Rightarrow> ret b
              | None \<Rightarrow>
                  (let question = ''Make '' @ client_default_team client @ '' the default team? [y/N] ''
                   in bind (emit (Asked question)) (\<lambda>_.
                      ret (input E question \<in> set [''Y'', ''y''])))) (\<lambda>default_team'.
        bind (case datasets_dir of
                Some d \<Rightarrow> ret d
              | None \<Rightarrow>
                  bind (emit (Asked ''Datasets directory'')) (\<lambda>_.
                  ret (prompt E ''Datasets directory'' ''~/.darwin/datasets''))) (\<lambda>datasets_dir'.
        bind (emit (Mkdir (expanduser E datasets_dir'))) (\<lambda>_.
        bind (emit (SetDatasetsDir (expanduser E datasets_dir'))) (\<lambda>_.
        (let team = (if default_team' then Some (client_default_team client) else None)
         in invoke (PersistConfig team)
              (persist_client_configuration E client (expanduser E datasets_dir') team)))))))))
       (\<lambda>e. case e of InvalidLogin \<Rightarrow> Some (u_error ''Invalid API key'') | _ \<Rightarrow> None)"

definition current_team :: "env \<Rightarrow> unit cli" where
  "current_team E =
     bind (u_load_client E None False) (\<lambda>client. print (Line (client_team client)))"

fun print_teams :: "team_entry list \<Rightarrow> unit cli" where
  "print_teams [] = ret ()"
| "print_teams (t # ts) =
     bind (if entry_default t then print (Line (entry_slug t @ '' (default)''))
           else print (Line (entry_slug t))) (\<lambda>_. print_teams ts)"

definition list_teams :: "env \<Rightarrow> unit cli" where
  "list_teams E = (case u_config E of Config p \<Rightarrow> print_teams (config_get_all_teams E p))"

definition set_team :: "env \<Rightarrow> string \<Rightarrow> unit cli" where
  "set_team E slug =
     (case u_config E of Config p \<Rightarrow>
        invoke (SetDefaultTeam slug) (config_set_default_team E p slug))"

definition create_dataset :: "env \<Rightarrow> string \<Rightarrow> string option \<Rightarrow> unit cli" where
  "create_dataset E name team =
     bind (u_load_client E team False) (\<lambda>client.
       try_except
         (bind (invoke (CreateDataset name) (client_create_dataset client name)) (\<lambda>dataset.
            print (Line (''Dataset '' @ quoted (ds_name dataset) @ '' ('' @ ds_team dataset
                         @ ''/'' @ ds_slug dataset @ '') has been created.'' @ [CHR 0x0A]
                         @ ''Access at '' @ ds_remote_path dataset))))
         (\<lambda>e. case e of
                 NameTaken \<Rightarrow>
                   Some (u_error (''Dataset name '' @ quoted name @ '' is already taken.''))
               | ValidationError \<Rightarrow>
                   Some (u_error (''Dataset name '' @ quoted name @ '' is not valid.''))
               | _ \<Rightarrow> None))"

fun local_rows :: "env \<Rightarrow> Path list \<Rightarrow> Table \<Rightarrow> Table" where
  "local_rows E [] table = table"
| "local_rows E (dataset_path # rest) table =
     local_rows E rest
       (add_row table
          [(''name'', Str (path_name dataset_path)),
           (''images'', Num (int (length (find_files E [dataset_path])))),
           (''sync_date'', Str (naturaldate_mtime E dataset_path)),
           (''size'', Str (naturalsize E (sum_list (map (st_size E) (find_files E [dataset_path])))))])"

definition local :: "env \<Rightarrow> unit cli" where
  "local E =
     (let table = new_Table [''name'', ''images'', ''sync_date'', ''size'']
                            [AlignL, AlignR, AlignR, AlignR]
      in bind (u_load_client E None True) (\<lambda>client.
           (case client_list_local_datasets client None of
              (ps, stop) \<Rightarrow>
                (case stop of
                   Some e \<Rightarrow> raise e
                 | None \<Rightarrow> print (Tab (local_rows E ps table))))))"

text \<open>
  \<^verbatim>\<open>path\<close>: the loop returns the first path whose name is the dataset slug. When the
  generator is exhausted with no such path, control leaves the \<^verbatim>\<open>try\<close> statement and
  reaches the end of the function, which returns \<^verbatim>\<open>None\<close>.
\<close>

definition path :: "env \<Rightarrow> string \<Rightarrow> Path option cli" where
  "path E slug =
     bind (lift (identifier_parse E slug)) (\<lambda>identifier.
     bind (u_load_client E None True) (\<lambda>client.
       try_except
         (case client_list_local_datasets client (team_slug identifier) of
            (ps, stop) \<Rightarrow>
              (case find (\<lambda>p. dataset_slug identifier = path_name p) ps of
                 Some p \<Rightarrow> ret (Some p)
               | None \<Rightarrow> (case stop of Some e \<Rightarrow> raise e | None \<Rightarrow> ret None)))
         (\<lambda>e. case e of
                 NotFound n \<Rightarrow>
                   Some (u_error (''Dataset '' @ quoted (str_missing E n) @ '' does not exist locally. ''
                           @ ''Use '' @ quoted ''darwin dataset remote''
                           @ '' to see all the available datasets, ''
                           @ ''and '' @ quoted ''darwin dataset pull'' @ '' to pull them.''))
               | _ \<Rightarrow> None)))"

definition url :: "env \<Rightarrow> string \<Rightarrow> unit cli" where
  "url E slug =
     bind (u_load_client E None True) (\<lambda>client.
       try_except
         (bind (invoke (GetRemoteDataset (ByString slug))
                  (client_get_remote_dataset client (ByString slug))) (\<lambda>remote_dataset.
            print (Line (ds_remote_path remote_dataset))))
         (\<lambda>e. case e of
                 NotFound n \<Rightarrow>
                   Some (u_error (''Dataset '' @ quoted (str_missing E n) @ '' does not exist.''))
               | _ \<Rightarrow> None))"

definition dataset_report :: "env \<Rightarrow> string \<Rightarrow> string \<Rightarrow> unit cli" where
  "dataset_report E slug granularity =
     bind (u_load_client E None True) (\<lambda>client.
       try_except
         (bind (invoke (GetRemoteDataset (ByString slug))
                  (client_get_remote_dataset client (ByString slug))) (\<lambda>remote_dataset.
          bind (invoke (GetReport (ds_identifier remote_dataset) granularity)
                  (ds_get_report remote_dataset granularity)) (\<lambda>report.
            print (Line report))))
         (\<lambda>e. case e of
                 NotFound n \<Rightarrow>
                   Some (u_error (''Dataset '' @ quoted slug @ '' does not exist.''))
               | _ \<Rightarrow> None))"

definition export_dataset :: "env \<Rightarrow> string \<Rightarrow> int list option \<Rightarrow> string option \<Rightarrow> unit cli" where
  "export_dataset E slug annotation_class_ids name =
     bind (u_load_client E None False) (\<lambda>client.
     bind (lift (identifier_parse E slug)) (\<lambda>identifier.
     bind (invoke (GetRemoteDataset (ByIdentifier identifier))
             (client_get_remote_dataset client (ByIdentifier identifier))) (\<lambda>ds.
     bind (invoke (CreateRelease (ds_identifier ds) annotation_class_ids name)
             (ds_export ds annotation_class_ids name)) (\<lambda>_.
       (let identifier' = identifier\<lparr>version := name\<rparr>
        in print (Line (''Dataset '' @ slug @ '' successfully exported to ''
                        @ identifier_str E identifier')))))))"

text \<open>\<^verbatim>\<open>x or "latest"\<close>: the default replaces \<^verbatim>\<open>None\<close> and the empty string.\<close>

definition or_latest :: "string option \<Rightarrow> string" where
  "or_latest v = (case v of None \<Rightarrow> ''latest'' | Some s \<Rightarrow> if s = [] then ''latest'' else s)"

definition pull_dataset :: "env \<Rightarrow> string \<Rightarrow> unit cli" where
  "pull_dataset E slug =
     bind (lift (identifier_parse E slug)) (\<lambda>parsed.
     (let v = or_latest (version parsed) in
     bind (u_load_client E None False) (\<lambda>client.
     bind (try_except
             (invoke (GetRemoteDataset (ByString slug))
                (client_get_remote_dataset client (ByString slug)))
             (\<lambda>e. case e of
                     NotFound n \<Rightarrow>
                       Some (u_error (''dataset '' @ quoted slug @ '' does not exist at ''
                               @ client_url client @ ''. ''
                               @ ''Use '' @ quoted ''darwin remote''
                               @ '' to list all the remote datasets.''))
                   | Unauthenticated \<Rightarrow> Some (u_error ''please re-authenticate'')
                   | _ \<Rightarrow> None)) (\<lambda>dataset.
     bind (try_except
             (bind (ds_get_release dataset v) (\<lambda>release.
              bind (ds_pull dataset release) (\<lambda>_. ret release)))
             (\<lambda>e. case e of
                     NotFound n \<Rightarrow>
                       Some (u_error (''Version '' @ quoted (identifier_str E (ds_identifier dataset) @ '':'' @ v)
                               @ '' does not exist ''
                               @ ''Use '' @ quoted ''darwin dataset releases''
                               @ '' to list all available versions.''))
                   | _ \<Rightarrow> None)) (\<lambda>release.
       print (Line (''Dataset '' @ identifier_str E (release_identifier release) @ '' downloaded at ''
                    @ path_str (ds_local_path dataset) @ ''. '')))))))"

fun all_team_datasets :: "env \<Rightarrow> team_entry list \<Rightarrow> RemoteDataset list \<Rightarrow> RemoteDataset list cli" where
  "all_team_datasets E [] datasets = ret datasets"
| "all_team_datasets E (t # ts) datasets =
     bind (u_load_client E (Some (entry_slug t)) False) (\<lambda>client.
     bind (invoke (ListRemoteDatasets (client_team client)) (client_list_remote_datasets client))
       (\<lambda>ds. all_team_datasets E ts (datasets @ ds)))"

fun remote_rows :: "RemoteDataset list \<Rightarrow> Table \<Rightarrow> Table" where
  "remote_rows [] table = table"
| "remote_rows (dataset # rest) table =
     remote_rows rest
       (add_row table
          [(''name'', Str (ds_team dataset @ ''/'' @ ds_slug dataset)),
           (''images'', Num (ds_image_count dataset)),
           (''progress'', Str (ds_progress_percent dataset @ ''%''))])"

definition list_remote_datasets :: "env \<Rightarrow> bool \<Rightarrow> string option \<Rightarrow> unit cli" where
  "list_remote_datasets E all_teams team =
     (let table = new_Table [''name'', ''images'', ''progress''] [AlignL, AlignR, AlignR]
      in bind (if all_teams
               then (case u_config E of Config p \<Rightarrow>
                       all_team_datasets E (config_get_all_teams E p) [])
               else bind (u_load_client E team False) (\<lambda>client.
                      invoke (ListRemoteDatasets (client_team client))
                        (client_list_remote_datasets client))) (\<lambda>datasets.
           (let table' = remote_rows datasets table
            in if length (table_rows table') = 0 then print (Line ''No dataset available.'')
               else print (Tab table'))))"

definition remove_remote_dataset :: "env \<Rightarrow> string \<Rightarrow> unit cli" where
  "remove_remote_dataset E slug =
     bind (u_load_client E None False) (\<lambda>client.
       try_except
         (bind (invoke (GetRemoteDataset (ByString slug))
                  (client_get_remote_dataset client (ByString slug))) (\<lambda>dataset.
          bind (print (Line (''About to delete '' @ identifier_str E (ds_identifier dataset)
                             @ '' on darwin.''))) (\<lambda>_.
          bind (emit AskedToContinue) (\<lambda>_.
            if \<not> secure_continue_request E then print (Line ''Cancelled.'')
            else invoke (RemoveRemote (ds_identifier dataset)) (ds_remove_remote dataset)))))
         (\<lambda>e. case e of
                 NotFound n \<Rightarrow> Some (u_error (''No dataset with name '' @ quoted slug))
               | _ \<Rightarrow> None))"

definition release_row :: "Release \<Rightarrow> (string \<times> cell) list" where
  "release_row release =
     [(''name'', Ident (release_identifier release)),
      (''images'', Num (release_image_count release)),
      (''classes'', Num (release_class_count release)),
      (''export_date'', Num (export_date release))]"

fun release_rows :: "Release list \<Rightarrow> Table \<Rightarrow> Table" where
  "release_rows [] table = table"
| "release_rows (release # rest) table =
     (if \<not> available release then release_rows rest table
      else release_rows rest (add_row table (release_row release)))"

definition dataset_list_releases :: "env \<Rightarrow> string \<Rightarrow> unit cli" where
  "dataset_list_releases E slug =
     bind (u_load_client E None False) (\<lambda>client.
       try_except
         (bind (invoke (GetRemoteDataset (ByString slug))
                  (client_get_remote_dataset client (ByString slug))) (\<lambda>dataset.
          bind (invoke (ListReleases (ds_identifier dataset)) (ds_get_releases dataset)) (\<lambda>releases.
            if length releases = 0 then print (Line ''No available releases, export one first.'')
            else
              (let table = new_Table [''name'', ''images'', ''classes'', ''export_date'']
                                     [AlignL, AlignR, AlignR, AlignR]
               in print (Tab (release_rows releases table))))))
         (\<lambda>e. case e of
                 NotFound n \<Rightarrow> Some (u_error (''No dataset with name '' @ quoted slug))
               | _ \<Rightarrow> None))"

definition upload_data :: "env \<Rightarrow> string \<Rightarrow> string list option \<Rightarrow> string list option \<Rightarrow> int \<Rightarrow> unit cli" where
  "upload_data E slug files excluded fps =
     bind (u_load_client E None False) (\<lambda>client.
       try_except
         (bind (invoke (GetRemoteDataset (ByString slug))
                  (client_get_remote_dataset client (ByString slug))) (\<lambda>dataset.
          bind (ds_push dataset
                  \<lparr>files_to_upload = files, files_to_exclude = excluded, frame_rate = fps\<rparr>)
            (\<lambda>_. ret ())))
         (\<lambda>e. case e of
                 NotFound n \<Rightarrow>
                   Some (u_error (''No dataset with name '' @ quoted (str_missing E n)))
               | ValueError \<Rightarrow> Some (u_error ''No files found'')
               | _ \<Rightarrow> None))"

subsection \<open>The identifier resolver\<close>

text \<open>
  Modelled from the spec: \<^verbatim>\<open>DatasetIdentifier.parse\<close> and the identifier's rendering
  (\<^verbatim>\<open>darwin/dataset/identifier.py\<close> is not among the sources). The spec's grammar is
  \<^verbatim>\<open>[team_slug "/"] dataset_slug [":" version]\<close>; parsing fails with
  \<^verbatim>\<open>MalformedReference\<close> when the dataset slug is empty or the string holds more than
  one \<^verbatim>\<open>/\<close> or more than one \<^verbatim>\<open>:\<close>. The canonical string is
  \<^verbatim>\<open>team/dataset:version\<close>, with \<^verbatim>\<open>team/\<close> and \<^verbatim>\<open>:version\<close> each left out when
  absent.
\<close>

fun split_at :: "char \<Rightarrow> string \<Rightarrow> (string \<times> string) option" where
  "split_at c [] = None"
| "split_at c (x # xs) =
     (if x = c then Some ([], xs)
      else (case split_at c xs of None \<Rightarrow> None | Some (l, r) \<Rightarrow> Some (x # l, r)))"

definition parse :: "string \<Rightarrow> exn + DatasetIdentifier" where
  "parse reference =
     (if 1 < count_list reference (CHR ''/'') \<or> 1 < count_list reference (CHR '':'')
      then Inl MalformedReference
      else
        let (team, rest) =
              (case split_at (CHR ''/'') reference of
                 None \<Rightarrow> (None, reference)
               | Some (t, r) \<Rightarrow> (Some t, r));
            (slug, ver) =
              (case split_at (CHR '':'') rest of
                 None \<Rightarrow> (rest, None)
               | Some (d, v) \<Rightarrow> (d, Some v))
        in if slug = [] then Inl MalformedReference
           else Inr \<lparr>team_slug = team, dataset_slug = slug, version = ver\<rparr>)"

definition render :: "DatasetIdentifier \<Rightarrow> string" where
  "render i =
     (case team_slug i of None \<Rightarrow> [] | Some t \<Rightarrow> t @ ''/'')
     @ dataset_slug i
     @ (case version i of None \<Rightarrow> [] | Some v \<Rightarrow> '':'' @ v)"

subsection \<open>Release ledger and transfer engine, from the spec\<close>

text \<open>
  Modelled from the spec: \<^verbatim>\<open>dataset.get_release(version)\<close>, the spec's
  \<^verbatim>\<open>resolve_version\<close> (\<^verbatim>\<open>darwin/dataset/remote_dataset.py\<close> is not among the
  sources). \<^verbatim>\<open>"latest"\<close> is the release with the greatest export date among the
  available ones; any other value is matched exactly against the release names (the
  version of the release's identifier); no match is \<^verbatim>\<open>ReleaseNotFound\<close> with the
  dataset's identifier and the version asked for.
\<close>

fun latest_release :: "Release list \<Rightarrow> Release option" where
  "latest_release [] = None"
| "latest_release (r # rs) =
     (case latest_release rs of
        None \<Rightarrow> Some r
      | Some m \<Rightarrow> if export_date m \<le> export_date r then Some r else Some m)"

definition select_release :: "string \<Rightarrow> Release list \<Rightarrow> Release option" where
  "select_release v releases =
     (if v = ''latest'' then latest_release (filter available releases)
      else find (\<lambda>r. version (release_identifier r) = Some v) releases)"

definition get_release :: "RemoteDataset \<Rightarrow> string \<Rightarrow> Release cli" where
  "get_release remote v =
     bind (invoke (ListReleases (ds_identifier remote)) (ds_get_releases remote)) (\<lambda>releases.
       (case select_release v releases of
          None \<Rightarrow> raise (ReleaseNotFound (ds_identifier remote) v)
        | Some r \<Rightarrow> ret r))"

text \<open>
  Modelled from the spec: \<^verbatim>\<open>dataset.pull(release)\<close>, the transfer engine's pull. It
  fails with \<^verbatim>\<open>ReleaseUnavailable\<close> for a release that is not available, else makes
  the destination directory, downloads the release's content and returns the local
  dataset.
\<close>

definition pull :: "RemoteDataset \<Rightarrow> Release \<Rightarrow> LocalDataset cli" where
  "pull remote release =
     (if \<not> available release then raise ReleaseUnavailable
      else
        bind (emit (Mkdir (ds_local_path remote))) (\<lambda>_.
        bind (invoke (DownloadRelease release) (ds_download remote release)) (\<lambda>_.
          ret \<lparr>local_root_path = ds_local_path remote,
               local_team_slug = ds_team remote,
               local_dataset_slug = ds_slug remote\<rparr>)))"

text \<open>
  Modelled from the spec: \<^verbatim>\<open>dataset.push(...)\<close>, the transfer engine's push. The
  candidates are the explicit list when one is given, else the scan of the source root
  minus the excluded files; an empty candidate set is \<^verbatim>\<open>EmptyFileSet\<close> (which the
  module catches as \<^verbatim>\<open>ValueError\<close>); a frame rate that is not positive is rejected
  before any task is scheduled; a video becomes one task per frame, any other file one
  task; a task that fails goes into the summary and the others still run.
\<close>

definition candidate_files :: "RemoteDataset \<Rightarrow> TransferRequest \<Rightarrow> string list" where
  "candidate_files remote request =
     (case files_to_upload request of
        Some fs \<Rightarrow> fs
      | None \<Rightarrow>
          filter (\<lambda>f. f \<notin> set (case files_to_exclude request of None \<Rightarrow> [] | Some xs \<Rightarrow> xs))
            (ds_scan_source_root remote))"

definition expand_file :: "RemoteDataset \<Rightarrow> int \<Rightarrow> string \<Rightarrow> task list" where
  "expand_file remote fps f =
     (if ds_is_video remote f then map (VideoFrame f) [0..<ds_frame_count remote f fps] else [StaticItem f])"

fun task_path :: "task \<Rightarrow> string" where
  "task_path (StaticItem f) = f"
| "task_path (VideoFrame f _) = f"

fun upload_all :: "RemoteDataset \<Rightarrow> task list \<Rightarrow> summary \<Rightarrow> summary cli" where
  "upload_all remote [] s = ret s"
| "upload_all remote (t # ts) s =
     (\<lambda>w. case invoke (UploadFile t) (ds_upload remote t) w of
             (Inl e, w') \<Rightarrow>
               upload_all remote ts (s\<lparr>failed := failed s @ [(task_path t, e)]\<rparr>) w'
           | (Inr _, w') \<Rightarrow>
               upload_all remote ts (s\<lparr>succeeded := Suc (succeeded s)\<rparr>) w')"

definition push :: "RemoteDataset \<Rightarrow> TransferRequest \<Rightarrow> summary cli" where
  "push remote request =
     (let files = candidate_files remote request
      in if files = [] then raise EmptyFileSet
         else if frame_rate request \<le> 0 then raise ValidationError
         else upload_all remote (concat (map (expand_file remote (frame_rate request)) files))
                \<lparr>succeeded = 0, failed = []\<rparr>)"

text \<open>A remote dataset whose release ledger and transfer engine are the spec's.\<close>

definition follows_spec :: "RemoteDataset \<Rightarrow> bool" where
  "follows_spec d = (ds_get_release d = get_release d \<and> ds_pull d = pull d \<and> ds_push d = push d)"

subsection \<open>Observations on a run\<close>

text \<open>What a run added to the trace and to the output of the world it started from.\<close>

definition new_events :: "world \<Rightarrow> (exn + 'a) \<times> world \<Rightarrow> event list" where
  "new_events w r = drop (length (trace w)) (trace (snd r))"

definition new_output :: "world \<Rightarrow> (exn + 'a) \<times> world \<Rightarrow> printed list" where
  "new_output w r = drop (length (stdout w)) (stdout (snd r))"

text \<open>
  A run ended the way \<^verbatim>\<open>_error\<close> ends one: the exception is \<^verbatim>\<open>SystemExit(1)\<close> and the
  last thing printed is a line that starts with \<^verbatim>\<open>Error: \<close>.
\<close>

definition exited_through_error :: "(exn + 'a) \<times> world \<Rightarrow> bool" where
  "exited_through_error r =
     (fst r = Inl (SystemExit 1) \<and>
      (case rev (stdout (snd r)) of
         Line s # _ \<Rightarrow> prefix ''Error: '' s
       | _ \<Rightarrow> False))"

text \<open>The message of the last error line, without its prefix.\<close>

definition error_message :: "(exn + 'a) \<times> world \<Rightarrow> string" where
  "error_message r =
     (case rev (stdout (snd r)) of
        Line s # _ \<Rightarrow> drop (length ''Error: '') s
      | _ \<Rightarrow> [])"

text \<open>The exceptions that \<^verbatim>\<open>_load_client\<close> catches, as answers of \<^verbatim>\<open>Client.from_config\<close>.\<close>

definition config_failure :: "exn + Client \<Rightarrow> bool" where
  "config_failure a = (a = Inl MissingConfig \<or> a = Inl InvalidLogin \<or> a = Inl Unauthenticated)"

text \<open>The world in which a method of a dataset runs, once the dataset has been looked up.\<close>

definition after_lookup :: "string \<Rightarrow> world \<Rightarrow> world" where
  "after_lookup slug w = w\<lparr>trace := trace w @ [GetRemoteDataset (ByString slug)]\<rparr>"

text \<open>A message mentions a name: the name is not empty and occurs in the message.\<close>

definition mentions :: "string \<Rightarrow> string \<Rightarrow> bool" where
  "mentions name msg = (name \<noteq> [] \<and> sublist name msg)"

subsection \<open>A concrete installation\<close>

text \<open>
  One team (\<^verbatim>\<open>acme\<close>) with one dataset (\<^verbatim>\<open>birds\<close>), used to run the functions on
  concrete inputs. The client, the answer of the server to a dataset lookup, the
  releases and the answer of the user are parameters.
\<close>

definition demo_world :: world where
  "demo_world = \<lparr>stdout = [], trace = []\<rparr>"

definition demo_release :: "string \<Rightarrow> int \<Rightarrow> bool \<Rightarrow> Release" where
  "demo_release v d a =
     \<lparr>release_identifier = \<lparr>team_slug = Some ''acme'', dataset_slug = ''birds'', version = Some v\<rparr>,
      release_image_count = 10, release_class_count = 2, export_date = d, available = a\<rparr>"

definition demo_dataset_base :: "exn + Release list \<Rightarrow> string list \<Rightarrow> RemoteDataset" where
  "demo_dataset_base rs files =
     \<lparr>ds_name = ''Birds'', ds_team = ''acme'', ds_slug = ''birds'',
      ds_remote_path = ''https://darwin.example/datasets/7'',
      ds_local_path = [''home'', ''.darwin'', ''datasets'', ''acme'', ''birds''],
      ds_identifier = \<lparr>team_slug = Some ''acme'', dataset_slug = ''birds'', version = None\<rparr>,
      ds_image_count = 10, ds_progress_percent = ''50.0'',
      ds_get_report = (\<lambda>g. Inr ''report''),
      ds_export = (\<lambda>ids n. Inr ()),
      ds_get_releases = rs,
      ds_remove_remote = Inr (),
      ds_get_release = (\<lambda>v. raise Unauthenticated),
      ds_pull = (\<lambda>r. raise Unauthenticated),
      ds_push = (\<lambda>r. raise Unauthenticated),
      ds_download = (\<lambda>r. Inr ()),
      ds_upload = (\<lambda>t. Inr ()),
      ds_scan_source_root = files,
      ds_is_video = (\<lambda>f. False),
      ds_frame_count = (\<lambda>f fps. 0)\<rparr>"

definition demo_dataset :: "exn + Release list \<Rightarrow> string list \<Rightarrow> RemoteDataset" where
  "demo_dataset rs files =
     (let d = demo_dataset_base rs files
      in d\<lparr>ds_get_release := get_release d, ds_pull := pull d, ds_push := push d\<rparr>)"

definition demo_client :: "exn + RemoteDataset \<Rightarrow> Path list \<Rightarrow> Client" where
  "demo_client answer locals =
     \<lparr>client_team = ''acme'', client_default_team = ''acme'',
      client_url = ''https://darwin.example'',
      client_list_local_datasets = (\<lambda>t. (locals, None)),
      client_get_remote_dataset = (\<lambda>r. answer),
      client_create_dataset = (\<lambda>n. answer),
      client_list_remote_datasets = Inr []\<rparr>"

definition demo_env :: "exn + Client \<Rightarrow> bool \<Rightarrow> env" where
  "demo_env answer yes =
     \<lparr>identifier_parse = parse, identifier_str = render,
      home = [''home''],
      client_from_config = (\<lambda>p t. answer),
      client_from_api_key = (\<lambda>k. answer),
      config_get_all_teams = (\<lambda>p. []),
      config_set_default_team = (\<lambda>p t. Inr ()),
      persist_client_configuration = (\<lambda>c d t. Inr (Config [''home'', ''.darwin'', ''config.yaml''])),
      input = (\<lambda>q. ''y''), prompt = (\<lambda>q d. d), expanduser = (\<lambda>s. [''home'', s]),
      secure_continue_request = yes,
      find_files = (\<lambda>ps. []), st_size = (\<lambda>p. 0),
      naturaldate_mtime = (\<lambda>p. ''today''), naturalsize = (\<lambda>n. ''0 Bytes'')\<rparr>"

section \<open>Properties\<close>

subsection \<open>Running a command by rewriting\<close>

lemmas cli_defs =
  bind_def lift_def ret_def raise_def try_except_def print_def emit_def invoke_def u_error_def

lemmas demo_defs =
  demo_env_def demo_client_def demo_dataset_def demo_dataset_base_def demo_world_def
  demo_release_def

lemmas command_defs =
  authenticate_def current_team_def create_dataset_def local_def path_def url_def
  dataset_report_def export_dataset_def pull_dataset_def list_remote_datasets_def
  remove_remote_dataset_def dataset_list_releases_def upload_data_def u_load_client_def

lemma upload_all_cong:
  "ds_upload d' = ds_upload d \<Longrightarrow> upload_all d' ts s = upload_all d ts s"
  by (induction ts arbitrary: s) (auto simp: fun_eq_iff split: prod.splits sum.splits)

lemma follows_spec_demo: "follows_spec (demo_dataset rs files)"
proof -
  let ?b = "demo_dataset_base rs files"
  let ?d = "demo_dataset rs files"
  have sel: "ds_identifier ?d = ds_identifier ?b" "ds_get_releases ?d = ds_get_releases ?b"
    "ds_local_path ?d = ds_local_path ?b" "ds_download ?d = ds_download ?b"
    "ds_team ?d = ds_team ?b" "ds_slug ?d = ds_slug ?b" "ds_upload ?d = ds_upload ?b"
    "ds_scan_source_root ?d = ds_scan_source_root ?b" "ds_is_video ?d = ds_is_video ?b"
    "ds_frame_count ?d = ds_frame_count ?b"
    "ds_get_release ?d = get_release ?b" "ds_pull ?d = pull ?b" "ds_push ?d = push ?b"
    by (simp_all add: demo_dataset_def Let_def)
  have "get_release ?d = get_release ?b"
    by (simp add: get_release_def fun_eq_iff sel cong: option.case_cong)
  moreover have "pull ?d = pull ?b"
    by (simp add: pull_def fun_eq_iff sel)
  moreover have "push ?d = push ?b"
  proof -
    have c: "candidate_files ?d = candidate_files ?b"
      by (simp add: candidate_files_def fun_eq_iff sel cong: option.case_cong)
    have e: "expand_file ?d = expand_file ?b"
      by (simp add: expand_file_def fun_eq_iff sel)
    have u: "upload_all ?d = upload_all ?b"
      by (simp add: fun_eq_iff upload_all_cong [of ?d ?b] sel)
    show ?thesis by (simp add: push_def fun_eq_iff c e u Let_def cong: if_cong)
  qed
  ultimately show ?thesis by (simp add: follows_spec_def sel)
qed

lemma demo_env_sel:
  "client_from_config (demo_env a y) p t = a"
  "client_from_api_key (demo_env a y) k = a"
  "identifier_parse (demo_env a y) = parse"
  "identifier_str (demo_env a y) = render"
  "secure_continue_request (demo_env a y) = y"
  by (simp_all add: demo_env_def)

lemma demo_client_sel:
  "client_get_remote_dataset (demo_client a l) r = a"
  "client_create_dataset (demo_client a l) n = a"
  "client_list_local_datasets (demo_client a l) t = (l, None)"
  "client_url (demo_client a l) = ''https://darwin.example''"
  by (simp_all add: demo_client_def)

lemma demo_dataset_sel:
  "ds_identifier (demo_dataset rs fs) = \<lparr>team_slug = Some ''acme'', dataset_slug = ''birds'', version = None\<rparr>"
  "ds_get_releases (demo_dataset rs fs) = rs"
  "ds_export (demo_dataset rs fs) ids n = Inr ()"
  "ds_remove_remote (demo_dataset rs fs) = Inr ()"
  "ds_download (demo_dataset rs fs) r = Inr ()"
  "ds_upload (demo_dataset rs fs) t = Inr ()"
  "ds_scan_source_root (demo_dataset rs fs) = fs"
  "ds_is_video (demo_dataset rs fs) f = False"
  "ds_local_path (demo_dataset rs fs) = [''home'', ''.darwin'', ''datasets'', ''acme'', ''birds'']"
  by (simp_all add: demo_dataset_def demo_dataset_base_def Let_def)

lemma demo_release_sel:
  "release_identifier (demo_release v d a) = \<lparr>team_slug = Some ''acme'', dataset_slug = ''birds'', version = Some v\<rparr>"
  "export_date (demo_release v d a) = d"
  "available (demo_release v d a) = a"
  "release_image_count (demo_release v d a) = 10"
  "release_class_count (demo_release v d a) = 2"
  by (simp_all add: demo_release_def)

lemmas demo_sel = demo_env_sel demo_client_sel demo_dataset_sel demo_release_sel demo_world_def

subsection \<open>Removing a remote dataset\<close>

text \<open>
  C9. \<^verbatim>\<open>remove_remote_dataset\<close> deletes only after an affirmative confirmation. When the
  dataset is found and the user declines, the run prints the announcement and
  \<^verbatim>\<open>Cancelled.\<close>, returns normally, and has only looked the dataset up and asked. In
  every run where the user declines, no operation that changes the remote state is
  invoked; in every run whatsoever, none is invoked before the user has been asked.
\<close>

theorem remove_remote_dataset_asks_first:
  "(client_from_config E (config_yaml E) None = Inr c \<and>
    client_get_remote_dataset c (ByString slug) = Inr d \<and> \<not> secure_continue_request E \<longrightarrow>
      remove_remote_dataset E slug w =
        (Inr (), w\<lparr>stdout := stdout w @ [Line (''About to delete '' @ identifier_str E (ds_identifier d)
                                                 @ '' on darwin.''),
                                          Line ''Cancelled.''],
                   trace := trace w @ [GetRemoteDataset (ByString slug), AskedToContinue]\<rparr>))
   \<and> (\<not> secure_continue_request E \<longrightarrow>
        (\<forall>ev \<in> set (new_events w (remove_remote_dataset E slug w)). \<not> mutates_remote ev))
   \<and> (\<forall>ev \<in> set (takeWhile (\<lambda>e. e \<noteq> AskedToContinue)
                     (new_events w (remove_remote_dataset E slug w))).
         \<not> mutates_remote ev)"
  by (auto simp: new_events_def remove_remote_dataset_def u_load_client_def cli_defs
           split: sum.splits exn.splits if_splits)

theorem remove_remote_dataset_asks_first_witness:
  "remove_remote_dataset (demo_env (Inr (demo_client (Inr (demo_dataset (Inr []) [])) [])) False)
       ''acme/birds'' demo_world =
     (Inr (), \<lparr>stdout = [Line ''About to delete acme/birds on darwin.'', Line ''Cancelled.''],
              trace = [GetRemoteDataset (ByString ''acme/birds''), AskedToContinue]\<rparr>)
   \<and> list_all (\<lambda>ev. \<not> mutates_remote ev)
        (new_events demo_world
           (remove_remote_dataset (demo_env (Inr (demo_client (Inr (demo_dataset (Inr []) [])) [])) False)
              ''acme/birds'' demo_world))"
  using remove_remote_dataset_asks_first
          [of "demo_env (Inr (demo_client (Inr (demo_dataset (Inr []) [])) [])) False"
              "demo_client (Inr (demo_dataset (Inr []) [])) []" "''acme/birds''"
              "demo_dataset (Inr []) []" demo_world]
  by (simp add: demo_defs render_def new_events_def Let_def)

subsection \<open>Exporting\<close>

text \<open>
  C6. \<^verbatim>\<open>export_dataset\<close> asks the server for the export and returns: when the client
  loads, the reference parses, the dataset is found and the export request is accepted,
  the run looks the dataset up, requests the release, prints the success line with the
  identifier whose version is the name supplied, and returns normally. No run of the
  function lists the releases, so it never waits for the release to become available;
  that is seen only by a later listing.
\<close>

theorem export_dataset_returns_at_once:
  "(client_from_config E (config_yaml E) None = Inr c \<and> identifier_parse E slug = Inr i \<and>
    client_get_remote_dataset c (ByIdentifier i) = Inr ds \<and> ds_export ds ids name = Inr () \<longrightarrow>
      export_dataset E slug ids name w =
        (Inr (), w\<lparr>stdout := stdout w @ [Line (''Dataset '' @ slug @ '' successfully exported to ''
                                                 @ identifier_str E (i\<lparr>version := name\<rparr>))],
                   trace := trace w @ [GetRemoteDataset (ByIdentifier i),
                                       CreateRelease (ds_identifier ds) ids name]\<rparr>))
   \<and> (\<forall>ev \<in> set (new_events w (export_dataset E slug ids name w)). \<forall>j. ev \<noteq> ListReleases j)"
  by (auto simp: new_events_def export_dataset_def u_load_client_def cli_defs
           split: sum.splits exn.splits if_splits)

theorem export_dataset_returns_at_once_witness:
  "export_dataset
       (demo_env (Inr (demo_client (Inr (demo_dataset (Inr [demo_release ''v2'' 5 False]) [])) [])) False)
       ''acme/birds'' None (Some ''v2'') demo_world =
     (Inr (), \<lparr>stdout = [Line ''Dataset acme/birds successfully exported to acme/birds:v2''],
              trace = [GetRemoteDataset
                         (ByIdentifier \<lparr>team_slug = Some ''acme'', dataset_slug = ''birds'', version = None\<rparr>),
                       CreateRelease \<lparr>team_slug = Some ''acme'', dataset_slug = ''birds'', version = None\<rparr>
                         None (Some ''v2'')]\<rparr>)
   \<and> ds_get_releases (demo_dataset (Inr [demo_release ''v2'' 5 False]) []) = Inr [demo_release ''v2'' 5 False]
   \<and> \<not> available (demo_release ''v2'' 5 False)"
  using export_dataset_returns_at_once
          [of "demo_env (Inr (demo_client (Inr (demo_dataset (Inr [demo_release ''v2'' 5 False]) [])) [])) False"
              "demo_client (Inr (demo_dataset (Inr [demo_release ''v2'' 5 False]) [])) []"
              "''acme/birds''"
              "\<lparr>team_slug = Some ''acme'', dataset_slug = ''birds'', version = None\<rparr>"
              "demo_dataset (Inr [demo_release ''v2'' 5 False]) []"
              None "Some ''v2''" demo_world]
  by (simp add: demo_sel render_def parse_def Let_def)

subsection \<open>Listing releases\<close>

lemma release_rows_filter:
  "release_rows rs t = t\<lparr>table_rows := table_rows t @ map release_row (filter available rs)\<rparr>"
  by (induction rs arbitrary: t) (simp_all add: add_row_def)

text \<open>
  C10. In \<^verbatim>\<open>dataset_list_releases\<close> the emptiness test comes before the filter on
  availability. When the client loads, the dataset is found and the server lists its
  releases: if the list is not empty and none of its releases is available, the run
  prints a table with no rows; and the line
  \<^verbatim>\<open>No available releases, export one first.\<close> is printed exactly when the list is
  empty.
\<close>

theorem dataset_list_releases_checks_emptiness_first:
  "client_from_config E (config_yaml E) None = Inr c \<and>
   client_get_remote_dataset c (ByString slug) = Inr d \<and> ds_get_releases d = Inr rs \<longrightarrow>
     (rs \<noteq> [] \<and> (\<forall>r \<in> set rs. \<not> available r) \<longrightarrow>
        dataset_list_releases E slug w =
          (Inr (), w\<lparr>stdout := stdout w @ [Tab \<lparr>table_columns = [''name'', ''images'', ''classes'', ''export_date''],
                                                  table_alignments = [AlignL, AlignR, AlignR, AlignR],
                                                  table_rows = []\<rparr>],
                     trace := trace w @ [GetRemoteDataset (ByString slug), ListReleases (ds_identifier d)]\<rparr>))
   \<and> (Line ''No available releases, export one first.''
         \<in> set (new_output w (dataset_list_releases E slug w)) \<longleftrightarrow> rs = [])"
  by (auto simp: new_output_def dataset_list_releases_def u_load_client_def cli_defs
        release_rows_filter new_Table_def filter_empty_conv)

theorem dataset_list_releases_checks_emptiness_first_witness:
  "dataset_list_releases
       (demo_env (Inr (demo_client (Inr (demo_dataset (Inr [demo_release ''v1'' 3 False]) [])) [])) False)
       ''acme/birds'' demo_world =
     (Inr (), \<lparr>stdout = [Tab \<lparr>table_columns = [''name'', ''images'', ''classes'', ''export_date''],
                              table_alignments = [AlignL, AlignR, AlignR, AlignR],
                              table_rows = []\<rparr>],
              trace = [GetRemoteDataset (ByString ''acme/birds''),
                       ListReleases \<lparr>team_slug = Some ''acme'', dataset_slug = ''birds'', version = None\<rparr>]\<rparr>)
   \<and> Line ''No available releases, export one first.''
        \<notin> set (new_output demo_world
                 (dataset_list_releases
                    (demo_env (Inr (demo_client (Inr (demo_dataset (Inr [demo_release ''v1'' 3 False]) [])) [])) False)
                    ''acme/birds'' demo_world))"
  using dataset_list_releases_checks_emptiness_first
          [of "demo_env (Inr (demo_client (Inr (demo_dataset (Inr [demo_release ''v1'' 3 False]) [])) [])) False"
              "demo_client (Inr (demo_dataset (Inr [demo_release ''v1'' 3 False]) [])) []"
              "''acme/birds''"
              "demo_dataset (Inr [demo_release ''v1'' 3 False]) []"
              "[demo_release ''v1'' 3 False]" demo_world]
  by (simp add: demo_sel new_output_def)

subsection \<open>The local path of a dataset\<close>

text \<open>
  C1. \<^verbatim>\<open>path\<close> does not fail when no local dataset has the slug asked for: when the
  client loads, the reference parses, and the listing of the local datasets ends
  without raising and yields no path of that name, the function prints nothing and
  returns \<^verbatim>\<open>None\<close>.
\<close>

theorem path_returns_None_without_error:
  "client_from_config E (config_yaml E) None = Inr c \<and> identifier_parse E slug = Inr i \<and>
   client_list_local_datasets c (team_slug i) = (ps, None) \<and>
   (\<forall>p \<in> set ps. path_name p \<noteq> dataset_slug i) \<longrightarrow>
     path E slug w = (Inr None, w)"
proof (intro impI, elim conjE)
  assume load: "client_from_config E (config_yaml E) None = Inr c"
    and parsed: "identifier_parse E slug = Inr i"
    and listed: "client_list_local_datasets c (team_slug i) = (ps, None)"
    and absent: "\<forall>p \<in> set ps. path_name p \<noteq> dataset_slug i"
  from absent have "find (\<lambda>p. dataset_slug i = path_name p) ps = None"
    by (auto simp: find_None_iff)
  with load parsed listed show "path E slug w = (Inr None, w)"
    by (simp add: path_def u_load_client_def cli_defs)
qed

theorem path_returns_None_without_error_witness:
  "path (demo_env (Inr (demo_client (Inl Unauthenticated)
                          [[''home'', ''.darwin'', ''datasets'', ''acme'', ''cats'']])) False)
        ''acme/birds'' demo_world = (Inr None, demo_world)"
  using path_returns_None_without_error
          [of "demo_env (Inr (demo_client (Inl Unauthenticated)
                          [[''home'', ''.darwin'', ''datasets'', ''acme'', ''cats'']])) False"
              "demo_client (Inl Unauthenticated) [[''home'', ''.darwin'', ''datasets'', ''acme'', ''cats'']]"
              "''acme/birds''"
              "\<lparr>team_slug = Some ''acme'', dataset_slug = ''birds'', version = None\<rparr>"
              "[[''home'', ''.darwin'', ''datasets'', ''acme'', ''cats'']]" demo_world]
  by (simp add: demo_sel parse_def path_name_def Let_def)

subsection \<open>Failures end in \<^verbatim>\<open>_error\<close>\<close>

text \<open>
  C8, as stated, fails: not every failure of every command ends in \<^verbatim>\<open>_error\<close>.
  \<^verbatim>\<open>export_dataset\<close> has no \<^verbatim>\<open>except\<close> clause, so a dataset that is not found
  leaves it as the \<^verbatim>\<open>NotFound\<close> of the lookup, with nothing printed; and \<^verbatim>\<open>path\<close>,
  for a dataset that is not among the local ones, returns \<^verbatim>\<open>None\<close>.
\<close>

theorem uncaught_failures_counterexample:
  "export_dataset (demo_env (Inr (demo_client (Inl (NotFound (Named ''birds''))) [])) False)
       ''acme/birds'' None (Some ''v1'') demo_world =
     (Inl (NotFound (Named ''birds'')),
      \<lparr>stdout = [],
       trace = [GetRemoteDataset
                  (ByIdentifier \<lparr>team_slug = Some ''acme'', dataset_slug = ''birds'', version = None\<rparr>)]\<rparr>)
   \<and> \<not> exited_through_error
        (export_dataset (demo_env (Inr (demo_client (Inl (NotFound (Named ''birds''))) [])) False)
           ''acme/birds'' None (Some ''v1'') demo_world)
   \<and> path (demo_env (Inr (demo_client (Inl Unauthenticated)
                            [[''home'', ''.darwin'', ''datasets'', ''acme'', ''cats'']])) False)
        ''acme/birds'' demo_world = (Inr None, demo_world)"
  by (simp add: export_dataset_def path_def u_load_client_def cli_defs demo_sel parse_def Let_def
        exited_through_error_def path_name_def)

text \<open>
  C8, amended. Every \<^verbatim>\<open>except\<close> clause of the module ends the process through
  \<^verbatim>\<open>_error\<close>, which prints the message after \<^verbatim>\<open>Error: \<close> and raises
  \<^verbatim>\<open>SystemExit(1)\<close>. The clauses are the three of \<^verbatim>\<open>_load_client\<close> (missing
  configuration, invalid login, unauthenticated), reached from every command that loads
  a client; invalid login in \<^verbatim>\<open>authenticate\<close>; name taken and validation error in
  \<^verbatim>\<open>create_dataset\<close>; dataset not found in \<^verbatim>\<open>path\<close>, \<^verbatim>\<open>url\<close>,
  \<^verbatim>\<open>dataset_report\<close>, \<^verbatim>\<open>pull_dataset\<close>, \<^verbatim>\<open>remove_remote_dataset\<close>,
  \<^verbatim>\<open>dataset_list_releases\<close> and \<^verbatim>\<open>upload_data\<close>; unauthenticated and release not
  found in \<^verbatim>\<open>pull_dataset\<close>; the \<^verbatim>\<open>ValueError\<close> of an empty file set in
  \<^verbatim>\<open>upload_data\<close>. In each of them the run ends with \<^verbatim>\<open>SystemExit(1)\<close> and an error
  line as the last output, so it returns no value. A failure of the lookup in
  \<^verbatim>\<open>export_dataset\<close>, which no clause catches, leaves the command as the exception
  itself.
\<close>

theorem failures_exit_through_error:
  "u_error message w = (Inl (SystemExit 1), w\<lparr>stdout := stdout w @ [Line (''Error: '' @ message)]\<rparr>)
   \<and> (config_failure (client_from_config E (config_yaml E) team) \<longrightarrow>
        exited_through_error (u_load_client E team offline w) \<and>
        exited_through_error (create_dataset E name team w) \<and>
        exited_through_error (list_remote_datasets E False team w))
   \<and> (config_failure (client_from_config E (config_yaml E) None) \<longrightarrow>
        exited_through_error (current_team E w) \<and>
        exited_through_error (local E w) \<and>
        exited_through_error (url E slug w) \<and>
        exited_through_error (dataset_report E slug granularity w) \<and>
        exited_through_error (export_dataset E slug ids rname w) \<and>
        exited_through_error (remove_remote_dataset E slug w) \<and>
        exited_through_error (dataset_list_releases E slug w) \<and>
        exited_through_error (upload_data E slug files excluded fps w) \<and>
        (identifier_parse E slug = Inr i \<longrightarrow>
           exited_through_error (path E slug w) \<and> exited_through_error (pull_dataset E slug w)))
   \<and> (client_from_api_key E api_key = Inl InvalidLogin \<longrightarrow>
        exited_through_error (authenticate E api_key default_team datasets_dir w))
   \<and> (client_from_config E (config_yaml E) team = Inr c \<and>
      (client_create_dataset c name = Inl NameTaken \<or>
       client_create_dataset c name = Inl ValidationError) \<longrightarrow>
        exited_through_error (create_dataset E name team w))
   \<and> (client_from_config E (config_yaml E) None = Inr c \<longrightarrow>
        (client_get_remote_dataset c (ByString slug) = Inl (NotFound n) \<longrightarrow>
           exited_through_error (url E slug w) \<and>
           exited_through_error (dataset_report E slug granularity w) \<and>
           exited_through_error (remove_remote_dataset E slug w) \<and>
           exited_through_error (dataset_list_releases E slug w) \<and>
           exited_through_error (upload_data E slug files excluded fps w))
      \<and> (identifier_parse E slug = Inr i \<and>
           (client_get_remote_dataset c (ByString slug) = Inl (NotFound n) \<or>
            client_get_remote_dataset c (ByString slug) = Inl Unauthenticated) \<longrightarrow>
           exited_through_error (pull_dataset E slug w))
      \<and> (identifier_parse E slug = Inr i \<and>
           client_list_local_datasets c (team_slug i) = (ps, Some (NotFound n)) \<and>
           find (\<lambda>p. dataset_slug i = path_name p) ps = None \<longrightarrow>
           exited_through_error (path E slug w))
      \<and> (client_get_remote_dataset c (ByString slug) = Inr d \<longrightarrow>
           (ds_get_report d granularity = Inl (NotFound n) \<longrightarrow>
              exited_through_error (dataset_report E slug granularity w))
         \<and> (ds_get_releases d = Inl (NotFound n) \<longrightarrow>
              exited_through_error (dataset_list_releases E slug w))
         \<and> (secure_continue_request E \<and> ds_remove_remote d = Inl (NotFound n) \<longrightarrow>
              exited_through_error (remove_remote_dataset E slug w))
         \<and> (fst (ds_push d \<lparr>files_to_upload = files, files_to_exclude = excluded, frame_rate = fps\<rparr>
                     (after_lookup slug w)) = Inl (NotFound n) \<or>
             fst (ds_push d \<lparr>files_to_upload = files, files_to_exclude = excluded, frame_rate = fps\<rparr>
                     (after_lookup slug w)) = Inl ValueError \<longrightarrow>
              exited_through_error (upload_data E slug files excluded fps w))
         \<and> (identifier_parse E slug = Inr i \<and>
             fst (ds_get_release d (or_latest (version i)) (after_lookup slug w)) = Inl (NotFound n) \<longrightarrow>
              exited_through_error (pull_dataset E slug w))
         \<and> (identifier_parse E slug = Inr i \<and>
             ds_get_release d (or_latest (version i)) (after_lookup slug w) = (Inr r, w') \<and>
             fst (ds_pull d r w') = Inl (NotFound n) \<longrightarrow>
              exited_through_error (pull_dataset E slug w)))
      \<and> (identifier_parse E slug = Inr i \<and>
           client_get_remote_dataset c (ByIdentifier i) = Inl e \<longrightarrow>
           export_dataset E slug ids rname w =
             (Inl e, w\<lparr>trace := trace w @ [GetRemoteDataset (ByIdentifier i)]\<rparr>)))"
  unfolding config_failure_def
  apply (intro conjI impI; (elim conjE disjE)?)
  apply (auto simp: command_defs cli_defs exited_through_error_def after_lookup_def Let_def
              split: prod.splits sum.splits)
  done

theorem failures_exit_through_error_witness:
  "exited_through_error (current_team (demo_env (Inl MissingConfig) False) demo_world)
   \<and> exited_through_error
        (pull_dataset (demo_env (Inl InvalidLogin) False) ''acme/birds'' demo_world)
   \<and> exited_through_error
        (authenticate (demo_env (Inl InvalidLogin) False) ''key'' None None demo_world)
   \<and> exited_through_error
        (create_dataset (demo_env (Inr (demo_client (Inl NameTaken) [])) False)
           ''birds'' None demo_world)
   \<and> exited_through_error
        (url (demo_env (Inr (demo_client (Inl (NotFound (Named ''birds''))) [])) False)
           ''birds'' demo_world)
   \<and> exited_through_error
        (upload_data (demo_env (Inr (demo_client (Inr (demo_dataset (Inr []) [])) [])) False)
           ''acme/birds'' None None 25 demo_world)"
proof -
  have a: "exited_through_error (current_team (demo_env (Inl MissingConfig) False) demo_world)"
    using failures_exit_through_error
            [where E = "demo_env (Inl MissingConfig) False" and w = demo_world]
    by (simp add: demo_env_sel config_failure_def; blast)
  have parsed: "identifier_parse (demo_env (Inl InvalidLogin) False) ''acme/birds'' =
      Inr \<lparr>team_slug = Some ''acme'', dataset_slug = ''birds'', version = None\<rparr>"
    by (simp add: demo_env_sel parse_def)
  have b: "exited_through_error
        (pull_dataset (demo_env (Inl InvalidLogin) False) ''acme/birds'' demo_world)"
    using parsed failures_exit_through_error
            [where E = "demo_env (Inl InvalidLogin) False" and w = demo_world
               and slug = "''acme/birds''"
               and i = "\<lparr>team_slug = Some ''acme'', dataset_slug = ''birds'', version = None\<rparr>"]
    by (simp add: demo_env_sel config_failure_def; blast)
  have c: "exited_through_error
        (authenticate (demo_env (Inl InvalidLogin) False) ''key'' None None demo_world)"
    using failures_exit_through_error
            [where E = "demo_env (Inl InvalidLogin) False" and w = demo_world
               and api_key = "''key''" and default_team = None and datasets_dir = None]
    by (simp add: demo_env_sel; blast)
  have d: "exited_through_error
        (create_dataset (demo_env (Inr (demo_client (Inl NameTaken) [])) False)
           ''birds'' None demo_world)"
    using failures_exit_through_error
            [where E = "demo_env (Inr (demo_client (Inl NameTaken) [])) False" and team = None
               and w = demo_world and c = "demo_client (Inl NameTaken) []" and name = "''birds''"]
    by (simp add: demo_env_sel demo_client_sel; blast)
  have e: "exited_through_error
        (url (demo_env (Inr (demo_client (Inl (NotFound (Named ''birds''))) [])) False)
           ''birds'' demo_world)"
    using failures_exit_through_error
            [where E = "demo_env (Inr (demo_client (Inl (NotFound (Named ''birds''))) [])) False"
               and w = demo_world and slug = "''birds''"
               and c = "demo_client (Inl (NotFound (Named ''birds''))) []" and n = "Named ''birds''"]
    by (simp add: demo_env_sel demo_client_sel; blast)
  have pushed: "fst (ds_push (demo_dataset (Inr []) [])
                   \<lparr>files_to_upload = None, files_to_exclude = None, frame_rate = 25\<rparr>
                   (after_lookup ''acme/birds'' demo_world)) = Inl ValueError"
    using follows_spec_demo [of "Inr []" "[]"]
    by (simp add: follows_spec_def push_def candidate_files_def demo_dataset_sel
          EmptyFileSet_def raise_def)
  have f: "exited_through_error
        (upload_data (demo_env (Inr (demo_client (Inr (demo_dataset (Inr []) [])) [])) False)
           ''acme/birds'' None None 25 demo_world)"
    using pushed failures_exit_through_error
            [where E = "demo_env (Inr (demo_client (Inr (demo_dataset (Inr []) [])) [])) False"
               and w = demo_world and slug = "''acme/birds''"
               and c = "demo_client (Inr (demo_dataset (Inr []) [])) []"
               and d = "demo_dataset (Inr []) []" and files = None and excluded = None
               and fps = 25]
    by (simp add: demo_env_sel demo_client_sel; blast)
  from a b c d e f show ?thesis by simp
qed

subsection \<open>What the error messages say\<close>

lemma sublist_later: "sublist xs ys \<Longrightarrow> sublist xs (y # ys)"
  by (simp add: sublist_Cons_right)

text \<open>
  C2, as the spec states it, fails: \<^verbatim>\<open>pull_dataset\<close> on \<^verbatim>\<open>acme/birds:v1\<close>, when the
  server answers the lookup with \<^verbatim>\<open>Unauthenticated\<close>, exits through \<^verbatim>\<open>_error\<close> with the
  message \<^verbatim>\<open>please re-authenticate\<close>, which mentions neither the reference nor its
  team, dataset or version.
\<close>

theorem generic_message_counterexample:
  "exited_through_error
     (pull_dataset (demo_env (Inr (demo_client (Inl Unauthenticated) [])) False)
        ''acme/birds:v1'' demo_world)
   \<and> error_message
       (pull_dataset (demo_env (Inr (demo_client (Inl Unauthenticated) [])) False)
          ''acme/birds:v1'' demo_world) = ''please re-authenticate''
   \<and> \<not> mentions ''acme/birds:v1'' ''please re-authenticate''
   \<and> \<not> mentions ''acme'' ''please re-authenticate''
   \<and> \<not> mentions ''birds'' ''please re-authenticate''
   \<and> \<not> mentions ''v1'' ''please re-authenticate''"
  by (simp add: pull_dataset_def u_load_client_def cli_defs demo_sel parse_def Let_def
        exited_through_error_def error_message_def mentions_def sublist_Cons_right
        or_latest_def)

text \<open>
  C2, amended. Where a dataset, a release or a name is what failed, the message names
  it: the name asked for in \<^verbatim>\<open>create_dataset\<close>; the name the exception carries in
  \<^verbatim>\<open>url\<close>, \<^verbatim>\<open>path\<close> and \<^verbatim>\<open>upload_data\<close>; the reference given in
  \<^verbatim>\<open>dataset_report\<close>, \<^verbatim>\<open>remove_remote_dataset\<close>, \<^verbatim>\<open>dataset_list_releases\<close> and
  \<^verbatim>\<open>pull_dataset\<close>; the dataset's identifier and the version for a release that is
  not found. The other branches print fixed messages: \<^verbatim>\<open>please re-authenticate\<close>,
  \<^verbatim>\<open>No files found\<close>, \<^verbatim>\<open>Authenticate first\<close>, \<^verbatim>\<open>Please re-authenticate\<close> and
  \<^verbatim>\<open>Invalid API key\<close>.
\<close>

theorem not_found_messages_name_the_culprit:
  "(client_from_config E (config_yaml E) team = Inr c \<and>
      (client_create_dataset c name = Inl NameTaken \<or>
       client_create_dataset c name = Inl ValidationError) \<longrightarrow>
        sublist name (error_message (create_dataset E name team w)))
   \<and> (client_from_config E (config_yaml E) None = Inr c \<longrightarrow>
        (client_get_remote_dataset c (ByString slug) = Inl (NotFound n) \<longrightarrow>
           sublist (str_missing E n) (error_message (url E slug w)) \<and>
           sublist slug (error_message (dataset_report E slug granularity w)) \<and>
           sublist slug (error_message (remove_remote_dataset E slug w)) \<and>
           sublist slug (error_message (dataset_list_releases E slug w)) \<and>
           sublist (str_missing E n) (error_message (upload_data E slug files excluded fps w)))
      \<and> (identifier_parse E slug = Inr i \<and>
           client_get_remote_dataset c (ByString slug) = Inl (NotFound n) \<longrightarrow>
           sublist slug (error_message (pull_dataset E slug w)))
      \<and> (identifier_parse E slug = Inr i \<and>
           client_list_local_datasets c (team_slug i) = (ps, Some (NotFound n)) \<and>
           find (\<lambda>p. dataset_slug i = path_name p) ps = None \<longrightarrow>
           sublist (str_missing E n) (error_message (path E slug w)))
      \<and> (client_get_remote_dataset c (ByString slug) = Inr d \<and>
           identifier_parse E slug = Inr i \<and>
           fst (ds_get_release d (or_latest (version i)) (after_lookup slug w)) = Inl (NotFound n) \<longrightarrow>
           sublist (identifier_str E (ds_identifier d) @ '':'' @ or_latest (version i))
             (error_message (pull_dataset E slug w)))
      \<and> (identifier_parse E slug = Inr i \<and>
           client_get_remote_dataset c (ByString slug) = Inl Unauthenticated \<longrightarrow>
           error_message (pull_dataset E slug w) = ''please re-authenticate'')
      \<and> (client_get_remote_dataset c (ByString slug) = Inr d \<and>
           fst (ds_push d \<lparr>files_to_upload = files, files_to_exclude = excluded, frame_rate = fps\<rparr>
                  (after_lookup slug w)) = Inl ValueError \<longrightarrow>
           error_message (upload_data E slug files excluded fps w) = ''No files found''))
   \<and> (config_failure (client_from_config E (config_yaml E) team) \<longrightarrow>
        error_message (u_load_client E team offline w) =
          (if client_from_config E (config_yaml E) team = Inl MissingConfig
           then ''Authenticate first'' else ''Please re-authenticate''))
   \<and> (client_from_api_key E api_key = Inl InvalidLogin \<longrightarrow>
        error_message (authenticate E api_key default_team datasets_dir w) = ''Invalid API key'')"
  unfolding config_failure_def
  apply (intro conjI impI; (elim conjE disjE)?)
  apply (auto simp: command_defs cli_defs error_message_def after_lookup_def Let_def quoted_def
              split: prod.splits sum.splits intro!: sublist_later)
  done

theorem not_found_messages_name_the_culprit_witness:
  "sublist ''birds''
     (error_message
        (url (demo_env (Inr (demo_client (Inl (NotFound (Named ''birds''))) [])) False)
           ''birds'' demo_world))
   \<and> error_message
        (url (demo_env (Inr (demo_client (Inl (NotFound (Named ''birds''))) [])) False)
           ''birds'' demo_world) = ''Dataset '' @ quoted ''birds'' @ '' does not exist.''
   \<and> sublist ''Birds''
        (error_message
           (create_dataset (demo_env (Inr (demo_client (Inl NameTaken) [])) False)
              ''Birds'' None demo_world))"
proof -
  have a: "sublist ''birds''
     (error_message
        (url (demo_env (Inr (demo_client (Inl (NotFound (Named ''birds''))) [])) False)
           ''birds'' demo_world))"
    using not_found_messages_name_the_culprit
            [where E = "demo_env (Inr (demo_client (Inl (NotFound (Named ''birds''))) [])) False"
               and w = demo_world and slug = "''birds''"
               and c = "demo_client (Inl (NotFound (Named ''birds''))) []" and n = "Named ''birds''"]
    by (simp add: demo_env_sel demo_client_sel str_missing_def; blast)
  have b: "error_message
        (url (demo_env (Inr (demo_client (Inl (NotFound (Named ''birds''))) [])) False)
           ''birds'' demo_world) = ''Dataset '' @ quoted ''birds'' @ '' does not exist.''"
    by (simp add: url_def u_load_client_def cli_defs demo_sel error_message_def str_missing_def)
  have c: "sublist ''Birds''
        (error_message
           (create_dataset (demo_env (Inr (demo_client (Inl NameTaken) [])) False)
              ''Birds'' None demo_world))"
    using not_found_messages_name_the_culprit
            [where E = "demo_env (Inr (demo_client (Inl NameTaken) [])) False" and team = None
               and w = demo_world and c = "demo_client (Inl NameTaken) []" and name = "''Birds''"]
    by (simp add: demo_env_sel demo_client_sel; blast)
  from a b c show ?thesis by simp
qed

subsection \<open>The identifier resolver of the spec\<close>

lemma split_at_Some: "split_at c s = Some (l, r) \<Longrightarrow> s = l @ c # r"
  by (induction s arbitrary: l) (auto split: if_splits option.splits)

lemma render_parse: "parse s = Inr i \<Longrightarrow> render i = s"
  by (auto simp: parse_def render_def Let_def split: if_splits option.splits prod.splits
           dest!: split_at_Some)

text \<open>
  C7. Round trip of the identifier resolver: an identifier that \<^verbatim>\<open>parse\<close> produced,
  rendered and parsed again, is the same identifier.
\<close>

theorem parse_render_round_trip: "parse s = Inr i \<Longrightarrow> parse (render i) = Inr i"
  by (simp add: render_parse)

lemma parse_full: "parse ''acme/birds:v1'' =
    Inr \<lparr>team_slug = Some ''acme'', dataset_slug = ''birds'', version = Some ''v1''\<rparr>"
  by (simp add: parse_def)

theorem parse_render_round_trip_witness:
  "parse ''acme/birds:v1'' =
     Inr \<lparr>team_slug = Some ''acme'', dataset_slug = ''birds'', version = Some ''v1''\<rparr>
   \<and> render \<lparr>team_slug = Some ''acme'', dataset_slug = ''birds'', version = Some ''v1''\<rparr>
       = ''acme/birds:v1''
   \<and> parse (render \<lparr>team_slug = Some ''acme'', dataset_slug = ''birds'', version = Some ''v1''\<rparr>)
       = Inr \<lparr>team_slug = Some ''acme'', dataset_slug = ''birds'', version = Some ''v1''\<rparr>"
  using parse_render_round_trip [OF parse_full] parse_full by (simp add: render_def)

subsection \<open>Resolving the version to pull\<close>

lemma latest_release_None: "latest_release rs = None \<longleftrightarrow> rs = []"
  by (induction rs) (auto split: option.splits)

lemma latest_release_Some:
  "latest_release rs = Some r \<Longrightarrow>
     r \<in> set rs \<and> (\<forall>r' \<in> set rs. export_date r' \<le> export_date r)"
proof (induction rs arbitrary: r)
  case Nil
  then show ?case by simp
next
  case (Cons a rs)
  show ?case
  proof (cases "latest_release rs")
    case None
    with Cons.prems show ?thesis by (simp add: latest_release_None)
  next
    case (Some m)
    with Cons.IH [OF Some] Cons.prems show ?thesis
      by (auto split: if_splits)
  qed
qed

lemma select_latest:
  "select_release ''latest'' rs = Some r \<Longrightarrow>
     r \<in> set rs \<and> available r \<and> (\<forall>r' \<in> set rs. available r' \<longrightarrow> export_date r' \<le> export_date r)"
  by (auto simp: select_release_def dest!: latest_release_Some)

lemma select_latest_None:
  "select_release ''latest'' rs = None \<longleftrightarrow> (\<forall>r \<in> set rs. \<not> available r)"
  by (auto simp: select_release_def latest_release_None filter_empty_conv)

lemma select_exact:
  "v \<noteq> ''latest'' \<Longrightarrow> select_release v rs = Some r \<Longrightarrow>
     r \<in> set rs \<and> version (release_identifier r) = Some v"
  by (auto simp: select_release_def find_Some_iff)

lemma select_exact_None:
  "v \<noteq> ''latest'' \<Longrightarrow>
     select_release v rs = None \<longleftrightarrow> (\<forall>r \<in> set rs. version (release_identifier r) \<noteq> Some v)"
  by (auto simp: select_release_def find_None_iff)

lemma get_release_not_found:
  "ds_get_releases d = Inr rs \<Longrightarrow> select_release v rs = None \<Longrightarrow>
     get_release d v w =
       (Inl (ReleaseNotFound (ds_identifier d) v), w\<lparr>trace := trace w @ [ListReleases (ds_identifier d)]\<rparr>)"
  by (simp add: get_release_def cli_defs)

lemma pull_dataset_downloads:
  "client_from_config E (config_yaml E) None = Inr c \<Longrightarrow> identifier_parse E slug = Inr i \<Longrightarrow>
   client_get_remote_dataset c (ByString slug) = Inr d \<Longrightarrow> follows_spec d \<Longrightarrow>
   ds_get_releases d = Inr rs \<Longrightarrow> select_release (or_latest (version i)) rs = Some r \<Longrightarrow>
   available r \<Longrightarrow> ds_download d r = Inr () \<Longrightarrow>
     pull_dataset E slug w =
       (Inr (), w\<lparr>stdout := stdout w @ [Line (''Dataset '' @ identifier_str E (release_identifier r)
                                                @ '' downloaded at '' @ path_str (ds_local_path d) @ ''. '')],
                  trace := trace w @ [GetRemoteDataset (ByString slug), ListReleases (ds_identifier d),
                                      Mkdir (ds_local_path d), DownloadRelease r]\<rparr>)"
  by (simp add: pull_dataset_def u_load_client_def follows_spec_def get_release_def pull_def
        cli_defs Let_def)

lemma pull_dataset_release_not_found:
  "client_from_config E (config_yaml E) None = Inr c \<Longrightarrow> identifier_parse E slug = Inr i \<Longrightarrow>
   client_get_remote_dataset c (ByString slug) = Inr d \<Longrightarrow> follows_spec d \<Longrightarrow>
   ds_get_releases d = Inr rs \<Longrightarrow> select_release (or_latest (version i)) rs = None \<Longrightarrow>
     pull_dataset E slug w =
       (Inl (SystemExit 1),
        w\<lparr>stdout := stdout w @
             [Line (''Error: Version ''
                    @ quoted (identifier_str E (ds_identifier d) @ '':'' @ or_latest (version i))
                    @ '' does not exist Use '' @ quoted ''darwin dataset releases''
                    @ '' to list all available versions.'')],
          trace := trace w @ [GetRemoteDataset (ByString slug), ListReleases (ds_identifier d)]\<rparr>)"
  by (simp add: pull_dataset_def u_load_client_def follows_spec_def get_release_def
        ReleaseNotFound_def cli_defs Let_def)

text \<open>
  C5. \<^verbatim>\<open>pull_dataset\<close> asks for the version \<^verbatim>\<open>parse(reference).version or "latest"\<close>:
  \<^verbatim>\<open>latest\<close> for a reference with no version (or an empty one), the version written
  in the reference otherwise. \<^verbatim>\<open>latest\<close> resolves to an available release whose export
  date is greatest among the available ones, and it resolves whenever some release is
  available. Any other version resolves to a release of exactly that name, and to none
  exactly when no release has the name. When nothing matches, \<^verbatim>\<open>get_release\<close> fails
  with \<^verbatim>\<open>ReleaseNotFound\<close> carrying the dataset's identifier and the version asked
  for. So, on a dataset whose methods are the spec's: a reference with no version
  downloads the release that \<^verbatim>\<open>latest\<close> selects, a reference with the version \<open>v\<close>
  downloads the release that \<open>v\<close> selects, and when the selection is empty the command
  exits through \<^verbatim>\<open>_error\<close> with a message that gives the identifier and that version.
\<close>

theorem pull_resolves_latest_or_exact_version:
  "or_latest None = ''latest'' \<and> or_latest (Some []) = ''latest''
   \<and> (v \<noteq> [] \<longrightarrow> or_latest (Some v) = v)
   \<and> (select_release ''latest'' rs = Some r \<longrightarrow>
        r \<in> set rs \<and> available r \<and>
        (\<forall>r' \<in> set rs. available r' \<longrightarrow> export_date r' \<le> export_date r))
   \<and> ((\<exists>r' \<in> set rs. available r') \<longrightarrow> select_release ''latest'' rs \<noteq> None)
   \<and> (v \<noteq> ''latest'' \<longrightarrow>
        (select_release v rs = Some r \<longrightarrow> r \<in> set rs \<and> version (release_identifier r) = Some v) \<and>
        (select_release v rs = None \<longleftrightarrow> (\<forall>r' \<in> set rs. version (release_identifier r') \<noteq> Some v)))
   \<and> (ds_get_releases d = Inr rs \<and> select_release v rs = None \<longrightarrow>
        get_release d v w =
          (Inl (ReleaseNotFound (ds_identifier d) v),
           w\<lparr>trace := trace w @ [ListReleases (ds_identifier d)]\<rparr>))
   \<and> (client_from_config E (config_yaml E) None = Inr c \<and> identifier_parse E slug = Inr i \<and>
       client_get_remote_dataset c (ByString slug) = Inr d \<and> follows_spec d \<and>
       ds_get_releases d = Inr rs \<longrightarrow>
        (version i = None \<longrightarrow>
           (select_release ''latest'' rs = Some r \<and> ds_download d r = Inr () \<longrightarrow>
              pull_dataset E slug w =
                (Inr (), w\<lparr>stdout := stdout w @
                             [Line (''Dataset '' @ identifier_str E (release_identifier r)
                                    @ '' downloaded at '' @ path_str (ds_local_path d) @ ''. '')],
                           trace := trace w @
                             [GetRemoteDataset (ByString slug), ListReleases (ds_identifier d),
                              Mkdir (ds_local_path d), DownloadRelease r]\<rparr>))
         \<and> (select_release ''latest'' rs = None \<longrightarrow>
              pull_dataset E slug w =
                (Inl (SystemExit 1),
                 w\<lparr>stdout := stdout w @
                      [Line (''Error: Version ''
                             @ quoted (identifier_str E (ds_identifier d) @ '':latest'')
                             @ '' does not exist Use '' @ quoted ''darwin dataset releases''
                             @ '' to list all available versions.'')],
                   trace := trace w @
                      [GetRemoteDataset (ByString slug), ListReleases (ds_identifier d)]\<rparr>)))
      \<and> (version i = Some v \<and> v \<noteq> [] \<longrightarrow>
           (select_release v rs = Some r \<and> available r \<and> ds_download d r = Inr () \<longrightarrow>
              pull_dataset E slug w =
                (Inr (), w\<lparr>stdout := stdout w @
                             [Line (''Dataset '' @ identifier_str E (release_identifier r)
                                    @ '' downloaded at '' @ path_str (ds_local_path d) @ ''. '')],
                           trace := trace w @
                             [GetRemoteDataset (ByString slug), ListReleases (ds_identifier d),
                              Mkdir (ds_local_path d), DownloadRelease r]\<rparr>))
         \<and> (select_release v rs = None \<longrightarrow>
              pull_dataset E slug w =
                (Inl (SystemExit 1),
                 w\<lparr>stdout := stdout w @
                      [Line (''Error: Version ''
                             @ quoted (identifier_str E (ds_identifier d) @ '':'' @ v)
                             @ '' does not exist Use '' @ quoted ''darwin dataset releases''
                             @ '' to list all available versions.'')],
                   trace := trace w @
                      [GetRemoteDataset (ByString slug), ListReleases (ds_identifier d)]\<rparr>))))"
proof -
  have defaults: "or_latest None = ''latest''" "or_latest (Some []) = ''latest''"
    "v \<noteq> [] \<longrightarrow> or_latest (Some v) = v"
    by (simp_all add: or_latest_def)
  have latest: "select_release ''latest'' rs = Some r \<longrightarrow>
        r \<in> set rs \<and> available r \<and>
        (\<forall>r' \<in> set rs. available r' \<longrightarrow> export_date r' \<le> export_date r)"
    using select_latest [of rs r] by blast
  have some: "(\<exists>r' \<in> set rs. available r') \<longrightarrow> select_release ''latest'' rs \<noteq> None"
    by (simp add: select_latest_None)
  have exact: "v \<noteq> ''latest'' \<longrightarrow>
        (select_release v rs = Some r \<longrightarrow> r \<in> set rs \<and> version (release_identifier r) = Some v) \<and>
        (select_release v rs = None \<longleftrightarrow> (\<forall>r' \<in> set rs. version (release_identifier r') \<noteq> Some v))"
    using select_exact [of v rs r] select_exact_None [of v rs] by blast
  have missing: "ds_get_releases d = Inr rs \<and> select_release v rs = None \<longrightarrow>
        get_release d v w =
          (Inl (ReleaseNotFound (ds_identifier d) v),
           w\<lparr>trace := trace w @ [ListReleases (ds_identifier d)]\<rparr>)"
    by (simp add: get_release_not_found)
  have pulls: "client_from_config E (config_yaml E) None = Inr c \<and> identifier_parse E slug = Inr i \<and>
       client_get_remote_dataset c (ByString slug) = Inr d \<and> follows_spec d \<and>
       ds_get_releases d = Inr rs \<longrightarrow>
        (version i = None \<longrightarrow>
           (select_release ''latest'' rs = Some r \<and> ds_download d r = Inr () \<longrightarrow>
              pull_dataset E slug w =
                (Inr (), w\<lparr>stdout := stdout w @
                             [Line (''Dataset '' @ identifier_str E (release_identifier r)
                                    @ '' downloaded at '' @ path_str (ds_local_path d) @ ''. '')],
                           trace := trace w @
                             [GetRemoteDataset (ByString slug), ListReleases (ds_identifier d),
                              Mkdir (ds_local_path d), DownloadRelease r]\<rparr>))
         \<and> (select_release ''latest'' rs = None \<longrightarrow>
              pull_dataset E slug w =
                (Inl (SystemExit 1),
                 w\<lparr>stdout := stdout w @
                      [Line (''Error: Version ''
                             @ quoted (identifier_str E (ds_identifier d) @ '':latest'')
                             @ '' does not exist Use '' @ quoted ''darwin dataset releases''
                             @ '' to list all available versions.'')],
                   trace := trace w @
                      [GetRemoteDataset (ByString slug), ListReleases (ds_identifier d)]\<rparr>)))
      \<and> (version i = Some v \<and> v \<noteq> [] \<longrightarrow>
           (select_release v rs = Some r \<and> available r \<and> ds_download d r = Inr () \<longrightarrow>
              pull_dataset E slug w =
                (Inr (), w\<lparr>stdout := stdout w @
                             [Line (''Dataset '' @ identifier_str E (release_identifier r)
                                    @ '' downloaded at '' @ path_str (ds_local_path d) @ ''. '')],
                           trace := trace w @
                             [GetRemoteDataset (ByString slug), ListReleases (ds_identifier d),
                              Mkdir (ds_local_path d), DownloadRelease r]\<rparr>))
         \<and> (select_release v rs = None \<longrightarrow>
              pull_dataset E slug w =
                (Inl (SystemExit 1),
                 w\<lparr>stdout := stdout w @
                      [Line (''Error: Version ''
                             @ quoted (identifier_str E (ds_identifier d) @ '':'' @ v)
                             @ '' does not exist Use '' @ quoted ''darwin dataset releases''
                             @ '' to list all available versions.'')],
                   trace := trace w @
                      [GetRemoteDataset (ByString slug), ListReleases (ds_identifier d)]\<rparr>)))"
  proof (intro impI conjI; elim conjE)
    assume h: "client_from_config E (config_yaml E) None = Inr c" "identifier_parse E slug = Inr i"
       "client_get_remote_dataset c (ByString slug) = Inr d" "follows_spec d"
       "ds_get_releases d = Inr rs"
    {
      assume n: "version i = None" and s: "select_release ''latest'' rs = Some r"
        and dl: "ds_download d r = Inr ()"
      from s have "available r" by (simp add: select_latest)
      with pull_dataset_downloads [OF h, of r w] n s dl
      show "pull_dataset E slug w =
                (Inr (), w\<lparr>stdout := stdout w @
                             [Line (''Dataset '' @ identifier_str E (release_identifier r)
                                    @ '' downloaded at '' @ path_str (ds_local_path d) @ ''. '')],
                           trace := trace w @
                             [GetRemoteDataset (ByString slug), ListReleases (ds_identifier d),
                              Mkdir (ds_local_path d), DownloadRelease r]\<rparr>)"
        by (simp add: or_latest_def)
    }
    {
      assume n: "version i = None" and s: "select_release ''latest'' rs = None"
      with pull_dataset_release_not_found [OF h, of w]
      show "pull_dataset E slug w =
                (Inl (SystemExit 1),
                 w\<lparr>stdout := stdout w @
                      [Line (''Error: Version ''
                             @ quoted (identifier_str E (ds_identifier d) @ '':latest'')
                             @ '' does not exist Use '' @ quoted ''darwin dataset releases''
                             @ '' to list all available versions.'')],
                   trace := trace w @
                      [GetRemoteDataset (ByString slug), ListReleases (ds_identifier d)]\<rparr>)"
        by (simp add: or_latest_def)
    }
    {
      assume n: "version i = Some v" "v \<noteq> []" and s: "select_release v rs = Some r"
        and a: "available r" and dl: "ds_download d r = Inr ()"
      with pull_dataset_downloads [OF h, of r w]
      show "pull_dataset E slug w =
                (Inr (), w\<lparr>stdout := stdout w @
                             [Line (''Dataset '' @ identifier_str E (release_identifier r)
                                    @ '' downloaded at '' @ path_str (ds_local_path d) @ ''. '')],
                           trace := trace w @
                             [GetRemoteDataset (ByString slug), ListReleases (ds_identifier d),
                              Mkdir (ds_local_path d), DownloadRelease r]\<rparr>)"
        by (simp add: or_latest_def)
    }
    {
      assume n: "version i = Some v" "v \<noteq> []" and s: "select_release v rs = None"
      with pull_dataset_release_not_found [OF h, of w]
      show "pull_dataset E slug w =
                (Inl (SystemExit 1),
                 w\<lparr>stdout := stdout w @
                      [Line (''Error: Version ''
                             @ quoted (identifier_str E (ds_identifier d) @ '':'' @ v)
                             @ '' does not exist Use '' @ quoted ''darwin dataset releases''
                             @ '' to list all available versions.'')],
                   trace := trace w @
                      [GetRemoteDataset (ByString slug), ListReleases (ds_identifier d)]\<rparr>)"
        by (simp add: or_latest_def)
    }
  qed
  from defaults latest some exact missing pulls show ?thesis by blast
qed

theorem pull_resolves_latest_or_exact_version_witness:
  "select_release ''latest''
       [demo_release ''v1'' 20230101 True, demo_release ''v2'' 20230201 False,
        demo_release ''v3'' 20220101 True] = Some (demo_release ''v1'' 20230101 True)
   \<and> pull_dataset
        (demo_env (Inr (demo_client (Inr (demo_dataset
           (Inr [demo_release ''v1'' 20230101 True, demo_release ''v2'' 20230201 False,
                 demo_release ''v3'' 20220101 True]) [])) [])) False)
        ''acme/birds'' demo_world =
       (Inr (), \<lparr>stdout = [Line ''Dataset acme/birds:v1 downloaded at home/.darwin/datasets/acme/birds. ''],
                trace = [GetRemoteDataset (ByString ''acme/birds''),
                         ListReleases \<lparr>team_slug = Some ''acme'', dataset_slug = ''birds'', version = None\<rparr>,
                         Mkdir [''home'', ''.darwin'', ''datasets'', ''acme'', ''birds''],
                         DownloadRelease (demo_release ''v1'' 20230101 True)]\<rparr>)
   \<and> pull_dataset
        (demo_env (Inr (demo_client (Inr (demo_dataset
           (Inr [demo_release ''v1'' 20230101 True, demo_release ''v2'' 20230201 False,
                 demo_release ''v3'' 20220101 True]) [])) [])) False)
        ''acme/birds:v3'' demo_world =
       (Inr (), \<lparr>stdout = [Line ''Dataset acme/birds:v3 downloaded at home/.darwin/datasets/acme/birds. ''],
                trace = [GetRemoteDataset (ByString ''acme/birds:v3''),
                         ListReleases \<lparr>team_slug = Some ''acme'', dataset_slug = ''birds'', version = None\<rparr>,
                         Mkdir [''home'', ''.darwin'', ''datasets'', ''acme'', ''birds''],
                         DownloadRelease (demo_release ''v3'' 20220101 True)]\<rparr>)
   \<and> pull_dataset
        (demo_env (Inr (demo_client (Inr (demo_dataset
           (Inr [demo_release ''v1'' 20230101 True, demo_release ''v2'' 20230201 False,
                 demo_release ''v3'' 20220101 True]) [])) [])) False)
        ''acme/birds:v9'' demo_world =
       (Inl (SystemExit 1),
        \<lparr>stdout = [Line (''Error: Version '' @ quoted ''acme/birds:v9'' @ '' does not exist Use ''
                          @ quoted ''darwin dataset releases'' @ '' to list all available versions.'')],
         trace = [GetRemoteDataset (ByString ''acme/birds:v9''),
                  ListReleases \<lparr>team_slug = Some ''acme'', dataset_slug = ''birds'', version = None\<rparr>]\<rparr>)
   \<and> get_release
        (demo_dataset
           (Inr [demo_release ''v1'' 20230101 True, demo_release ''v2'' 20230201 False,
                 demo_release ''v3'' 20220101 True]) [])
        ''v9'' demo_world =
       (Inl (ReleaseNotFound \<lparr>team_slug = Some ''acme'', dataset_slug = ''birds'', version = None\<rparr> ''v9''),
        \<lparr>stdout = [],
         trace = [ListReleases \<lparr>team_slug = Some ''acme'', dataset_slug = ''birds'', version = None\<rparr>]\<rparr>)"
proof -
  let ?rs = "[demo_release ''v1'' 20230101 True, demo_release ''v2'' 20230201 False,
              demo_release ''v3'' 20220101 True]"
  let ?d = "demo_dataset (Inr ?rs) []"
  let ?c = "demo_client (Inr ?d) []"
  let ?E = "demo_env (Inr ?c) False"
  let ?i = "\<lparr>team_slug = Some ''acme'', dataset_slug = ''birds'', version = None\<rparr>"
  have latest: "select_release ''latest'' ?rs = Some (demo_release ''v1'' 20230101 True)"
    by (simp add: select_release_def demo_release_sel)
  have third: "select_release ''v3'' ?rs = Some (demo_release ''v3'' 20220101 True)"
    by (simp add: select_release_def demo_release_sel)
  have none: "select_release ''v9'' ?rs = None"
    by (simp add: select_release_def demo_release_sel)
  have parsed: "identifier_parse ?E ''acme/birds'' = Inr ?i"
    "identifier_parse ?E ''acme/birds:v3'' = Inr (?i\<lparr>version := Some ''v3''\<rparr>)"
    "identifier_parse ?E ''acme/birds:v9'' = Inr (?i\<lparr>version := Some ''v9''\<rparr>)"
    by (simp_all add: demo_env_sel parse_def)
  note spec = follows_spec_demo [of "Inr ?rs" "[]"]
  have pulled: "pull_dataset ?E ''acme/birds'' demo_world =
       (Inr (), \<lparr>stdout = [Line ''Dataset acme/birds:v1 downloaded at home/.darwin/datasets/acme/birds. ''],
                trace = [GetRemoteDataset (ByString ''acme/birds''),
                         ListReleases ?i,
                         Mkdir [''home'', ''.darwin'', ''datasets'', ''acme'', ''birds''],
                         DownloadRelease (demo_release ''v1'' 20230101 True)]\<rparr>)"
    using pull_resolves_latest_or_exact_version
               [where E = ?E and c = ?c and d = ?d and rs = ?rs and slug = "''acme/birds''"
                  and i = ?i and r = "demo_release ''v1'' 20230101 True" and v = "''v9''"
                  and w = demo_world]
          latest parsed spec
    by (simp add: demo_sel render_def)
  have exact: "pull_dataset ?E ''acme/birds:v3'' demo_world =
       (Inr (), \<lparr>stdout = [Line ''Dataset acme/birds:v3 downloaded at home/.darwin/datasets/acme/birds. ''],
                trace = [GetRemoteDataset (ByString ''acme/birds:v3''),
                         ListReleases ?i,
                         Mkdir [''home'', ''.darwin'', ''datasets'', ''acme'', ''birds''],
                         DownloadRelease (demo_release ''v3'' 20220101 True)]\<rparr>)"
    using pull_resolves_latest_or_exact_version
               [where E = ?E and c = ?c and d = ?d and rs = ?rs and slug = "''acme/birds:v3''"
                  and i = "?i\<lparr>version := Some ''v3''\<rparr>" and r = "demo_release ''v3'' 20220101 True"
                  and v = "''v3''" and w = demo_world]
          third parsed spec
    by (simp add: demo_sel render_def)
  have absent: "pull_dataset ?E ''acme/birds:v9'' demo_world =
       (Inl (SystemExit 1),
        \<lparr>stdout = [Line (''Error: Version '' @ quoted ''acme/birds:v9'' @ '' does not exist Use ''
                          @ quoted ''darwin dataset releases'' @ '' to list all available versions.'')],
         trace = [GetRemoteDataset (ByString ''acme/birds:v9''), ListReleases ?i]\<rparr>)"
    using pull_resolves_latest_or_exact_version
               [where E = ?E and c = ?c and d = ?d and rs = ?rs and slug = "''acme/birds:v9''"
                  and i = "?i\<lparr>version := Some ''v9''\<rparr>" and r = "demo_release ''v3'' 20220101 True"
                  and v = "''v9''" and w = demo_world]
          none parsed spec
    by (simp add: demo_sel render_def)
  have missing: "get_release ?d ''v9'' demo_world =
       (Inl (ReleaseNotFound ?i ''v9''), \<lparr>stdout = [], trace = [ListReleases ?i]\<rparr>)"
    using pull_resolves_latest_or_exact_version
               [where d = ?d and rs = ?rs and v = "''v9''" and w = demo_world]
          none
    by (simp add: demo_sel; blast)
  from latest pulled exact absent missing show ?thesis by simp
qed

subsection \<open>Releases that are not available\<close>

lemma pull_unavailable: "\<not> available r \<Longrightarrow> pull d r w = (Inl ReleaseUnavailable, w)"
  by (simp add: pull_def raise_def)

lemma pull_dataset_downloads_available:
  "client_from_config E (config_yaml E) None = Inr c \<Longrightarrow>
   client_get_remote_dataset c (ByString slug) = Inr d \<Longrightarrow> follows_spec d \<Longrightarrow>
   DownloadRelease r \<in> set (new_events w (pull_dataset E slug w)) \<Longrightarrow> available r"
  by (auto simp: new_events_def pull_dataset_def u_load_client_def follows_spec_def
        get_release_def pull_def cli_defs Let_def
        split: sum.splits exn.splits if_splits option.splits prod.splits)

text \<open>
  C4. Releases that are not available are left out of the listing and are not pulled.
  \<^verbatim>\<open>dataset_list_releases\<close>, for a list that is not empty, prints one table whose rows
  are those of the available releases, in the server's order. \<^verbatim>\<open>pull\<close> refuses a
  release that is not available, with \<^verbatim>\<open>ReleaseUnavailable\<close> and nothing done;
  \<^verbatim>\<open>latest\<close> only selects an available release; and in every run of \<^verbatim>\<open>pull_dataset\<close>
  on a dataset whose methods are the spec's, each release downloaded is available.
\<close>

theorem unavailable_releases_are_not_listed_nor_pulled:
  "(client_from_config E (config_yaml E) None = Inr c \<and>
    client_get_remote_dataset c (ByString slug) = Inr d \<and> ds_get_releases d = Inr rs \<and> rs \<noteq> [] \<longrightarrow>
      new_output w (dataset_list_releases E slug w) =
        [Tab \<lparr>table_columns = [''name'', ''images'', ''classes'', ''export_date''],
              table_alignments = [AlignL, AlignR, AlignR, AlignR],
              table_rows = map release_row (filter available rs)\<rparr>])
   \<and> (\<not> available r \<longrightarrow> pull d r w = (Inl ReleaseUnavailable, w))
   \<and> (select_release ''latest'' rs = Some r \<longrightarrow> available r)
   \<and> (client_from_config E (config_yaml E) None = Inr c \<and>
      client_get_remote_dataset c (ByString slug) = Inr d \<and> follows_spec d \<longrightarrow>
        (\<forall>r' . DownloadRelease r' \<in> set (new_events w (pull_dataset E slug w)) \<longrightarrow> available r'))"
proof (intro conjI impI allI)
  assume "client_from_config E (config_yaml E) None = Inr c \<and>
    client_get_remote_dataset c (ByString slug) = Inr d \<and> ds_get_releases d = Inr rs \<and> rs \<noteq> []"
  then show "new_output w (dataset_list_releases E slug w) =
        [Tab \<lparr>table_columns = [''name'', ''images'', ''classes'', ''export_date''],
              table_alignments = [AlignL, AlignR, AlignR, AlignR],
              table_rows = map release_row (filter available rs)\<rparr>]"
    by (simp add: new_output_def dataset_list_releases_def u_load_client_def cli_defs
          release_rows_filter new_Table_def)
next
  assume "\<not> available r"
  then show "pull d r w = (Inl ReleaseUnavailable, w)" by (rule pull_unavailable)
next
  assume "select_release ''latest'' rs = Some r"
  then show "available r" by (simp add: select_latest)
next
  fix r'
  assume "client_from_config E (config_yaml E) None = Inr c \<and>
      client_get_remote_dataset c (ByString slug) = Inr d \<and> follows_spec d"
    and "DownloadRelease r' \<in> set (new_events w (pull_dataset E slug w))"
  then show "available r'" by (blast intro: pull_dataset_downloads_available)
qed

theorem unavailable_releases_are_not_listed_nor_pulled_witness:
  "new_output demo_world
     (dataset_list_releases
        (demo_env (Inr (demo_client (Inr (demo_dataset
           (Inr [demo_release ''v1'' 3 True, demo_release ''v2'' 5 False]) [])) [])) False)
        ''acme/birds'' demo_world) =
     [Tab \<lparr>table_columns = [''name'', ''images'', ''classes'', ''export_date''],
           table_alignments = [AlignL, AlignR, AlignR, AlignR],
           table_rows = [release_row (demo_release ''v1'' 3 True)]\<rparr>]
   \<and> pull (demo_dataset (Inr [demo_release ''v1'' 3 True, demo_release ''v2'' 5 False]) [])
        (demo_release ''v2'' 5 False) demo_world = (Inl ReleaseUnavailable, demo_world)
   \<and> list_all (\<lambda>ev. ev \<noteq> DownloadRelease (demo_release ''v2'' 5 False))
        (new_events demo_world
           (pull_dataset
              (demo_env (Inr (demo_client (Inr (demo_dataset
                 (Inr [demo_release ''v1'' 3 True, demo_release ''v2'' 5 False]) [])) [])) False)
              ''acme/birds:v2'' demo_world))"
proof -
  let ?rs = "[demo_release ''v1'' 3 True, demo_release ''v2'' 5 False]"
  let ?d = "demo_dataset (Inr ?rs) []"
  let ?c = "demo_client (Inr ?d) []"
  let ?E = "demo_env (Inr ?c) False"
  note listed = unavailable_releases_are_not_listed_nor_pulled
                [where E = ?E and c = ?c and d = ?d and rs = ?rs and slug = "''acme/birds''"
                   and r = "demo_release ''v2'' 5 False" and w = demo_world]
  note pulled = unavailable_releases_are_not_listed_nor_pulled
                [where E = ?E and c = ?c and d = ?d and rs = ?rs and slug = "''acme/birds:v2''"
                   and r = "demo_release ''v2'' 5 False" and w = demo_world]
  have a: "new_output demo_world (dataset_list_releases ?E ''acme/birds'' demo_world) =
     [Tab \<lparr>table_columns = [''name'', ''images'', ''classes'', ''export_date''],
           table_alignments = [AlignL, AlignR, AlignR, AlignR],
           table_rows = [release_row (demo_release ''v1'' 3 True)]\<rparr>]"
    using listed by (simp add: demo_env_sel demo_client_sel demo_dataset_sel demo_release_sel)
  have b: "pull ?d (demo_release ''v2'' 5 False) demo_world = (Inl ReleaseUnavailable, demo_world)"
    using listed by (simp add: demo_release_sel)
  have "\<forall>r'. DownloadRelease r' \<in> set (new_events demo_world (pull_dataset ?E ''acme/birds:v2'' demo_world))
           \<longrightarrow> available r'"
    using pulled follows_spec_demo [of "Inr ?rs" "[]"]
    by (simp add: demo_env_sel demo_client_sel)
  then have c: "list_all (\<lambda>ev. ev \<noteq> DownloadRelease (demo_release ''v2'' 5 False))
        (new_events demo_world (pull_dataset ?E ''acme/birds:v2'' demo_world))"
    by (auto simp: list_all_iff demo_release_sel)
  from a b c show ?thesis by simp
qed

subsection \<open>Pushing nothing\<close>

lemma push_empty: "candidate_files d req = [] \<Longrightarrow> push d req w = (Inl EmptyFileSet, w)"
  by (simp add: push_def raise_def)

text \<open>
  C3. A push with no candidate file fails with \<^verbatim>\<open>EmptyFileSet\<close> and does nothing else.
  With no explicit list and an empty scan the candidate set is empty; \<^verbatim>\<open>push\<close> on an
  empty candidate set returns \<^verbatim>\<open>EmptyFileSet\<close> and leaves the world as it was (no
  operation of the transport client, no upload); and \<^verbatim>\<open>upload_data\<close>, on a dataset
  whose \<^verbatim>\<open>push\<close> is the spec's, then exits through \<^verbatim>\<open>_error\<close> with
  \<^verbatim>\<open>No files found\<close>, having invoked only the lookup of the dataset.
\<close>

theorem empty_push_fails_before_any_upload:
  "(files_to_upload req = None \<and> ds_scan_source_root d = [] \<longrightarrow> candidate_files d req = [])
   \<and> (candidate_files d req = [] \<longrightarrow> push d req w = (Inl EmptyFileSet, w))
   \<and> (client_from_config E (config_yaml E) None = Inr c \<and>
      client_get_remote_dataset c (ByString slug) = Inr d \<and> follows_spec d \<and>
      candidate_files d \<lparr>files_to_upload = files, files_to_exclude = excluded, frame_rate = fps\<rparr> = [] \<longrightarrow>
        upload_data E slug files excluded fps w =
          (Inl (SystemExit 1),
           w\<lparr>stdout := stdout w @ [Line ''Error: No files found''],
             trace := trace w @ [GetRemoteDataset (ByString slug)]\<rparr>))"
  by (auto simp: candidate_files_def push_empty upload_data_def u_load_client_def follows_spec_def
        cli_defs EmptyFileSet_def)

theorem empty_push_fails_before_any_upload_witness:
  "candidate_files (demo_dataset (Inr []) [])
       \<lparr>files_to_upload = None, files_to_exclude = None, frame_rate = 25\<rparr> = []
   \<and> push (demo_dataset (Inr []) [])
        \<lparr>files_to_upload = None, files_to_exclude = None, frame_rate = 25\<rparr> demo_world
       = (Inl EmptyFileSet, demo_world)
   \<and> upload_data (demo_env (Inr (demo_client (Inr (demo_dataset (Inr []) [])) [])) False)
        ''acme/birds'' None None 25 demo_world =
       (Inl (SystemExit 1),
        \<lparr>stdout = [Line ''Error: No files found''],
         trace = [GetRemoteDataset (ByString ''acme/birds'')]\<rparr>)"
proof -
  let ?d = "demo_dataset (Inr []) []"
  let ?c = "demo_client (Inr ?d) []"
  let ?E = "demo_env (Inr ?c) False"
  let ?req = "\<lparr>files_to_upload = None, files_to_exclude = None, frame_rate = 25\<rparr>"
  note inst = empty_push_fails_before_any_upload
                [where E = ?E and c = ?c and d = ?d and req = ?req and slug = "''acme/birds''"
                   and files = None and excluded = None and fps = 25 and w = demo_world]
  have a: "candidate_files ?d ?req = []"
    using inst by (simp add: demo_dataset_sel)
  have b: "push ?d ?req demo_world = (Inl EmptyFileSet, demo_world)"
    using inst a by simp
  have c: "upload_data ?E ''acme/birds'' None None 25 demo_world =
       (Inl (SystemExit 1),
        \<lparr>stdout = [Line ''Error: No files found''],
         trace = [GetRemoteDataset (ByString ''acme/birds'')]\<rparr>)"
    using inst a follows_spec_demo [of "Inr []" "[]"] by (simp add: demo_sel)
  from a b c show ?thesis by simp
qed

end
